theory Spec2Isabelle
  imports Complex_Main "HOL-Library.Word"
begin

section \<open>ArcGIS compact-cache tile server: the bundle decoders and the tile route\<close>

text \<open>
  A shallow embedding of \<^verbatim>\<open>src/index.ts\<close>: the address resolver \<^verbatim>\<open>getBundleInfo\<close>,
  the decoders \<^verbatim>\<open>readTileV1\<close> and \<^verbatim>\<open>readTileV2\<close>, and the raster tile route handler.

  Numbers are \<open>int\<close>: every number the decoders compute with is an integer far below
  \<open>2^53\<close>, where JavaScript's doubles are exact. \<open>NaN\<close> appears only as the result of
  \<^verbatim>\<open>parseInt\<close> in the route handler and is modelled there as \<open>None\<close>. A packet size of
  \<open>0\<close> is outside the model of \<^verbatim>\<open>getBundleInfo\<close> (JavaScript divides to \<open>Infinity\<close> or
  \<open>NaN\<close>, HOL to \<open>0\<close>); the theorems about it assume a positive packet size.

  Every effect is written out: a decoder returns its result together with the list of
  events it caused, in order: handles opened and closed, reads issued, console
  diagnostics. A rejected promise (a thrown error) is the \<open>Inl\<close> of a sum.
\<close>

subsection \<open>JavaScript strings: \<^verbatim>\<open>toString(radix)\<close> and \<^verbatim>\<open>padStart\<close>\<close>

definition HEX_DIGITS :: string where
  "HEX_DIGITS = ''0123456789abcdef''"

definition digit_char :: "nat \<Rightarrow> char" where
  "digit_char d = HEX_DIGITS ! d"

text \<open>The digits of a natural number in radix \<open>b\<close>, most significant first.\<close>

function digits_nat :: "nat \<Rightarrow> nat \<Rightarrow> string" where
  "digits_nat b n =
     (if n < b \<or> b < 2 then [digit_char n]
      else digits_nat b (n div b) @ [digit_char (n mod b)])"
  by pat_completeness auto
termination
  by (relation "measure (\<lambda>(b, n). n)") auto

declare digits_nat.simps [simp del]

text \<open>\<^verbatim>\<open>n.toString(radix)\<close> of an integer: a minus sign, then the digits, lowercase.\<close>

definition toString_radix :: "nat \<Rightarrow> int \<Rightarrow> string" where
  "toString_radix b n =
     (if n < 0 then CHR ''-'' # digits_nat b (nat (- n)) else digits_nat b (nat n))"

text \<open>\<^verbatim>\<open>s.padStart(w, c)\<close> for a one-character pad string.\<close>

definition padStart :: "nat \<Rightarrow> char \<Rightarrow> string \<Rightarrow> string" where
  "padStart w c s = replicate (w - length s) c @ s"

text \<open>
  Reading a digit string back, to say what a printed number denotes: the value of a
  character is its place in \<open>HEX_DIGITS\<close>.
\<close>

definition digit_val :: "char \<Rightarrow> nat" where
  "digit_val c = length (takeWhile (\<lambda>d. d \<noteq> c) HEX_DIGITS)"

definition parse_radix :: "nat \<Rightarrow> string \<Rightarrow> nat" where
  "parse_radix b s = foldl (\<lambda>acc c. acc * b + digit_val c) 0 s"

subsection \<open>\<^verbatim>\<open>path.join\<close>\<close>

text \<open>
  \<^verbatim>\<open>path.join\<close> joins its segments with \<open>/\<close> and normalises the result. The segments the
  program joins are a directory that is itself the result of \<^verbatim>\<open>path.join\<close>, and names
  built from digits and letters, so no normalisation step applies; a map name is taken
  to be an ordinary directory name (not \<open>.\<close> or \<open>..\<close>).
\<close>

fun path_join :: "string list \<Rightarrow> string" where
  "path_join [] = ''.''"
| "path_join [s] = s"
| "path_join (s # t # ss) = s @ ''/'' @ path_join (t # ss)"

subsection \<open>The address resolver\<close>

record bundle_info =
  L :: string
  R :: string
  C :: string
  rGroup :: int
  cGroup :: int

text \<open>
  \<^verbatim>\<open>function getBundleInfo(col, row, level, packetSize = 128)\<close>. The optional parameter
  is an \<open>int option\<close>: \<open>None\<close> is a call that leaves the argument out.
\<close>

definition getBundleInfo :: "int \<Rightarrow> int \<Rightarrow> int \<Rightarrow> int option \<Rightarrow> bundle_info" where
  "getBundleInfo col row level packetSize_arg =
     (let packetSize = (case packetSize_arg of None \<Rightarrow> 128 | Some p \<Rightarrow> p);
          rGroup = (row div packetSize) * packetSize;
          cGroup = (col div packetSize) * packetSize;
          L = ''L'' @ padStart 2 CHR ''0'' (toString_radix 10 level);
          R = ''R'' @ padStart 4 CHR ''0'' (toString_radix 16 rGroup);
          C = ''C'' @ padStart 4 CHR ''0'' (toString_radix 16 cGroup)
      in \<lparr> L = L, R = R, C = C, rGroup = rGroup, cGroup = cGroup \<rparr>)"

subsection \<open>Buffers\<close>

type_synonym byte = "8 word"

text \<open>\<^verbatim>\<open>Buffer.alloc(n)\<close>: \<open>n\<close> zero bytes.\<close>

definition Buffer_alloc :: "nat \<Rightarrow> byte list" where
  "Buffer_alloc n = replicate n 0"

text \<open>
  The buffer after a read stored the bytes \<open>got\<close> at its start (every read of the
  program passes buffer offset \<open>0\<close>): the bytes a short read did not reach keep their
  value.
\<close>

definition buffer_write :: "byte list \<Rightarrow> byte list \<Rightarrow> byte list" where
  "buffer_write buf got = got @ drop (length got) buf"

text \<open>The value of a byte string read little-endian, least significant byte first.\<close>

fun le_nat :: "byte list \<Rightarrow> nat" where
  "le_nat [] = 0"
| "le_nat (b # bs) = unat b + 256 * le_nat bs"

text \<open>
  \<^verbatim>\<open>buf.readUIntLE(offset, byteLength)\<close>, \<^verbatim>\<open>buf.readUInt32LE(offset)\<close> and
  \<^verbatim>\<open>buf.readInt32LE(offset)\<close> (two's complement). The program reads each buffer
  within its allocated size, where Node does not throw.
\<close>

definition readUIntLE :: "byte list \<Rightarrow> nat \<Rightarrow> nat \<Rightarrow> int" where
  "readUIntLE buf offset byteLength = int (le_nat (take byteLength (drop offset buf)))"

definition readUInt32LE :: "byte list \<Rightarrow> nat \<Rightarrow> int" where
  "readUInt32LE buf offset = int (le_nat (take 4 (drop offset buf)))"

definition readInt32LE :: "byte list \<Rightarrow> nat \<Rightarrow> int" where
  "readInt32LE buf offset =
     (let u = int (le_nat (take 4 (drop offset buf)))
      in if u < 2 ^ 31 then u else u - 2 ^ 32)"

subsection \<open>Files, handles and events\<close>

text \<open>
  The file system maps a path to what is there: nothing, a file with its bytes, or
  something that can be opened for reading but whose reads fail (a directory, for which
  \<^verbatim>\<open>read\<close> fails with \<open>EISDIR\<close>, or a file on a failing disk).
\<close>

datatype node = File "byte list" | Unreadable

type_synonym filesystem = "string \<Rightarrow> node option"

datatype io_error = ENOENT string | EIO string

text \<open>A \<^verbatim>\<open>FileHandle\<close>: the path it was opened on, what is there, and its file position.\<close>

record filehandle =
  fh_path :: string
  fh_node :: node
  fh_pos :: nat

text \<open>\<^verbatim>\<open>fs.open(path, 'r')\<close> of \<^verbatim>\<open>fs/promises\<close>: rejects when nothing is at the path.\<close>

definition fs_open :: "filesystem \<Rightarrow> string \<Rightarrow> io_error + filehandle" where
  "fs_open fs p =
     (case fs p of
        None \<Rightarrow> Inl (ENOENT p)
      | Some nd \<Rightarrow> Inr \<lparr> fh_path = p, fh_node = nd, fh_pos = 0 \<rparr>)"

text \<open>
  \<^verbatim>\<open>fd.read(buffer, 0, len, position)\<close> with \<open>len > 0\<close>: up to \<open>len\<close> bytes of the file from
  \<open>position\<close> on, fewer at the end of the file, stored at the start of the buffer. A
  position that is not negative leaves the handle's file position alone (\<^verbatim>\<open>pread\<close>); a
  negative one reads at the file position and advances it (\<^verbatim>\<open>read\<close>). That is Node up
  to version 18 on POSIX, which hands any negative position to the system as "the
  current position"; from version 20 on Node does so for \<open>-1\<close> only and rejects a
  position below \<open>-1\<close> with \<open>ERR_OUT_OF_RANGE\<close>, a rejection this model does not have.
  For a positive packet size the record positions \<open>16 + 5 * index\<close> and
  \<open>64 + 8 * tileIndex\<close> are never negative, and a V1 data offset is unsigned; a negative
  position can only come from a V2 record below 4. The result is the buffer as the read
  left it, and the handle.
\<close>

definition fd_read ::
  "filehandle \<Rightarrow> byte list \<Rightarrow> nat \<Rightarrow> int \<Rightarrow> io_error + (byte list \<times> filehandle)" where
  "fd_read fh buffer len position =
     (case fh_node fh of
        Unreadable \<Rightarrow> Inl (EIO (fh_path fh))
      | File bs \<Rightarrow>
          if position < 0
          then (let got = take len (drop (fh_pos fh) bs)
                in Inr (buffer_write buffer got, fh\<lparr> fh_pos := fh_pos fh + length got \<rparr>))
          else Inr (buffer_write buffer (take len (drop (nat position) bs)), fh))"

text \<open>The console messages, by what they report.\<close>

datatype diagnostic =
    V1_TileNotInBundle int int int
  | V1_InvalidLength int
  | V2_BundleFileNotFound string
  | V2_UnsupportedVersion int string
  | V2_TileNotFound int int
  | V2_InvalidTileSize int int int

datatype event =
    EvOpen string
  | EvOpenFailed string
  | EvRead string int nat
  | EvClose string
  | ConsoleWarn diagnostic
  | ConsoleLog string
  | ConsoleError string

text \<open>
  \<open>EvOpen p\<close> is a successful \<^verbatim>\<open>fs.open\<close> of \<open>p\<close>, \<open>EvOpenFailed p\<close> one that threw
  (no handle exists then), \<open>EvRead p position len\<close> a call of
  \<^verbatim>\<open>read\<close> on the handle of \<open>p\<close> (whether it succeeds or throws), \<open>EvClose p\<close> the
  \<^verbatim>\<open>close\<close> of that handle.
\<close>

type_synonym tile_result = "(io_error + byte list option) \<times> event list"

subsection \<open>CompactCache V1\<close>

text \<open>
  \<^verbatim>\<open>readTileV1(allLayersDir, z, x, y, packetSize = 128)\<close>. The result \<open>Inr None\<close> is
  \<^verbatim>\<open>null\<close>, \<open>Inr (Some data)\<close> the tile's buffer, \<open>Inl e\<close> a rejected promise. Note the call
  \<^verbatim>\<open>getBundleInfo(x, y, z)\<close>: it passes no packet size.
\<close>

definition readTileV1 ::
  "filesystem \<Rightarrow> string \<Rightarrow> int \<Rightarrow> int \<Rightarrow> int \<Rightarrow> int option \<Rightarrow> tile_result" where
  "readTileV1 fs allLayersDir z x y packetSize_arg =
     (let packetSize = (case packetSize_arg of None \<Rightarrow> 128 | Some p \<Rightarrow> p);
          info = getBundleInfo x y z None;
          bundlePath = path_join [allLayersDir, L info, R info @ C info @ ''.bundle''];
          bundlxPath = path_join [allLayersDir, L info, R info @ C info @ ''.bundlx'']
      in case fs_open fs bundlxPath of
           Inl e \<Rightarrow> (Inl e, [EvOpenFailed bundlxPath])
         | Inr fdIndex \<Rightarrow>
             let index = packetSize * (x - cGroup info) + (y - rGroup info);
                 t1 = [EvOpen bundlxPath, EvRead bundlxPath (16 + 5 * index) 5]
             in case fd_read fdIndex (Buffer_alloc 5) 5 (16 + 5 * index) of
                  Inl e \<Rightarrow> (Inl e, t1)
                | Inr (buffer, fdIndex') \<Rightarrow>
                    let offset = readUIntLE buffer 0 5;
                        t2 = t1 @ [EvClose bundlxPath]
                    in if offset = 0
                       then (Inr None, t2 @ [ConsoleWarn (V1_TileNotInBundle z x y)])
                       else case fs_open fs bundlePath of
                              Inl e \<Rightarrow> (Inl e, t2 @ [EvOpenFailed bundlePath])
                            | Inr fdBundle \<Rightarrow>
                                let t3 = t2 @ [EvOpen bundlePath, EvRead bundlePath offset 4]
                                in case fd_read fdBundle (Buffer_alloc 4) 4 offset of
                                     Inl e \<Rightarrow> (Inl e, t3)
                                   | Inr (lenBuf, fdBundle') \<Rightarrow>
                                       let len = readInt32LE lenBuf 0
                                       in if len \<le> 0 \<or> len > 1000000
                                          then (Inr None,
                                                t3 @ [ConsoleWarn (V1_InvalidLength len),
                                                      EvClose bundlePath])
                                          else let t4 = t3 @ [EvRead bundlePath (offset + 4) (nat len)]
                                               in case fd_read fdBundle' (Buffer_alloc (nat len))
                                                         (nat len) (offset + 4) of
                                                    Inl e \<Rightarrow> (Inl e, t4)
                                                  | Inr (data, fdBundle'') \<Rightarrow>
                                                      (Inr (Some data), t4 @ [EvClose bundlePath]))"

subsection \<open>CompactCache V2\<close>

definition HEADER_SIZE :: nat where
  "HEADER_SIZE = 64"

definition RECORD_SIZE :: nat where
  "RECORD_SIZE = 8"

text \<open>
  The second \<^verbatim>\<open>try\<close> block of \<^verbatim>\<open>readTileV2\<close>, on the open handle \<open>fd\<close>: its result and
  the events of the block itself; \<open>info\<close> holds the group coordinates the block uses.
  The \<^verbatim>\<open>finally\<close> is in \<open>readTileV2\<close> below.
\<close>

definition readTileV2_try ::
  "filehandle \<Rightarrow> string \<Rightarrow> int \<Rightarrow> int \<Rightarrow> int \<Rightarrow> bundle_info \<Rightarrow> tile_result" where
  "readTileV2_try fd bundlePath col row packetSize info =
     (let t1 = [EvRead bundlePath 0 HEADER_SIZE]
      in case fd_read fd (Buffer_alloc HEADER_SIZE) HEADER_SIZE 0 of
           Inl e \<Rightarrow> (Inl e, t1)
         | Inr (headerBuf, fd1) \<Rightarrow>
             let version = readUInt32LE headerBuf 0
             in if version \<noteq> 3
                then (Inr None, t1 @ [ConsoleWarn (V2_UnsupportedVersion version bundlePath)])
                else
                  let tileIndex = packetSize * (row - rGroup info) + (col - cGroup info);
                      recordOffset = int HEADER_SIZE + int RECORD_SIZE * tileIndex;
                      t2 = t1 @ [EvRead bundlePath recordOffset 4]
                  in case fd_read fd1 (Buffer_alloc 4) 4 recordOffset of
                       Inl e \<Rightarrow> (Inl e, t2)
                     | Inr (recordBuf, fd2) \<Rightarrow>
                         let dataOffset = readInt32LE recordBuf 0
                         in if dataOffset = 0
                            then (Inr None, t2 @ [ConsoleWarn (V2_TileNotFound col row)])
                            else
                              let t3 = t2 @ [EvRead bundlePath (dataOffset - 4) 4]
                              in case fd_read fd2 (Buffer_alloc 4) 4 (dataOffset - 4) of
                                   Inl e \<Rightarrow> (Inl e, t3)
                                 | Inr (lengthBuf, fd3) \<Rightarrow>
                                     let tileSize = readInt32LE lengthBuf 0
                                     in if tileSize \<le> 0
                                        then (Inr None,
                                              t3 @ [ConsoleWarn (V2_InvalidTileSize col row tileSize)])
                                        else
                                          let t4 = t3 @ [EvRead bundlePath dataOffset (nat tileSize)]
                                          in case fd_read fd3 (Buffer_alloc (nat tileSize))
                                                    (nat tileSize) dataOffset of
                                               Inl e \<Rightarrow> (Inl e, t4)
                                             | Inr (tileBuf, fd4) \<Rightarrow> (Inr (Some tileBuf), t4))"

text \<open>
  \<^verbatim>\<open>readTileV2(allLayersDir, col, row, level, packetSize = 128)\<close>: a failed open is
  caught and gives \<^verbatim>\<open>null\<close>; once the handle is open, the \<^verbatim>\<open>finally\<close> closes it after
  whatever the block did.
\<close>

definition readTileV2 ::
  "filesystem \<Rightarrow> string \<Rightarrow> int \<Rightarrow> int \<Rightarrow> int \<Rightarrow> int option \<Rightarrow> tile_result" where
  "readTileV2 fs allLayersDir col row level packetSize_arg =
     (let packetSize = (case packetSize_arg of None \<Rightarrow> 128 | Some p \<Rightarrow> p);
          info = getBundleInfo col row level (Some packetSize);
          bundlePath = path_join [allLayersDir, L info, R info @ C info @ ''.bundle''];
          t0 = [ConsoleLog ''readTileV2:'']
      in case fs_open fs bundlePath of
           Inl err \<Rightarrow>
             (Inr None,
              t0 @ [EvOpenFailed bundlePath, ConsoleWarn (V2_BundleFileNotFound bundlePath)])
         | Inr fd \<Rightarrow>
             (case readTileV2_try fd bundlePath col row packetSize info of
                (res, t) \<Rightarrow> (res, t0 @ [EvOpen bundlePath] @ t @ [EvClose bundlePath])))"

subsection \<open>The raster tile route\<close>

datatype tile_type = V1 | V2 | Loose | Unknown

text \<open>
  The fields of \<^verbatim>\<open>ConfXmlInfo\<close> the tile route reads (it does not read \<^verbatim>\<open>tileInfo\<close>).
\<close>

record conf_xml_info =
  imageFormat :: string
  tileType :: tile_type
  packetSize :: int

text \<open>What the handler does with the response object.\<close>

datatype response =
    SendStatus nat string
  | SendFile string
  | SendTile string "byte list"
  | Rejected

text \<open>
  \<open>SendStatus n body\<close> is \<^verbatim>\<open>res.status(n).send(body)\<close>, \<open>SendFile p\<close> is
  \<^verbatim>\<open>res.sendFile(p)\<close>, \<open>SendTile t b\<close> sets the content type \<open>t\<close> and sends the buffer,
  and \<open>Rejected\<close> is the handler's promise rejecting without a response (\<^verbatim>\<open>getConfXml\<close>
  throws outside the \<^verbatim>\<open>try\<close>).
\<close>

definition getAllLayersDir :: "string \<Rightarrow> string \<Rightarrow> string" where
  "getAllLayersDir RASTER_TILE_ROOT_DIR mapName =
     path_join [RASTER_TILE_ROOT_DIR, mapName, ''_alllayers'']"

text \<open>
  The handler of \<^verbatim>\<open>/image_tiles/:mapName/MapServer/tile/:level/:row/:col\<close>. Its
  parameters: the root directory (a constant of the deployment), \<^verbatim>\<open>getConfXml\<close> as a
  function that is \<open>None\<close> where it throws, the file system, the map name, and the three
  results of \<^verbatim>\<open>parseInt\<close>, \<open>None\<close> for \<open>NaN\<close>. \<open>NaN\<close> and \<open>0\<close> are the falsy numbers.
\<close>

definition tile_route ::
  "string \<Rightarrow> (string \<Rightarrow> conf_xml_info option) \<Rightarrow> filesystem \<Rightarrow> string \<Rightarrow>
   int option \<Rightarrow> int option \<Rightarrow> int option \<Rightarrow> response \<times> event list" where
  "tile_route RASTER_TILE_ROOT_DIR getConfXml fs mapName level_param row_param col_param =
     (case (level_param, row_param, col_param) of
        (Some level, Some row, Some col) \<Rightarrow>
          if mapName = [] \<or> level = 0 \<or> row = 0 \<or> col = 0
          then (SendStatus 400 ''Missing parameters'', [])
          else (case getConfXml mapName of
                  None \<Rightarrow> (Rejected, [])
                | Some conf \<Rightarrow>
                    if tileType conf = Loose
                    then
                      (let L_dir = ''L'' @ padStart 2 CHR ''0'' (toString_radix 10 level);
                           R_dir = ''R'' @ padStart 8 CHR ''0'' (toString_radix 16 row);
                           C_file = ''C'' @ padStart 8 CHR ''0'' (toString_radix 16 col);
                           extensions = [''.jpg'', ''.jpeg'', ''.png''];
                           tilePaths =
                             map (\<lambda>ext. path_join [RASTER_TILE_ROOT_DIR, mapName, ''_alllayers'',
                                                    L_dir, R_dir, C_file @ ext]) extensions
                       in case find (\<lambda>tilePath. fs tilePath \<noteq> None) tilePaths of
                            Some tilePath \<Rightarrow> (SendFile tilePath, [ConsoleLog ''loose''])
                          | None \<Rightarrow> (SendStatus 404 ''Raster Tile not found'', [ConsoleLog ''loose'']))
                    else
                      (case (if tileType conf = V1
                             then readTileV1 fs (getAllLayersDir RASTER_TILE_ROOT_DIR mapName)
                                    level col row None
                             else if tileType conf = V2
                             then readTileV2 fs (getAllLayersDir RASTER_TILE_ROOT_DIR mapName)
                                    col row level (Some (packetSize conf))
                             else (Inr None, [])) of
                         (Inl error, t) \<Rightarrow>
                           (SendStatus 500 ''Internal server error.'',
                            t @ [ConsoleError ''Error sending tile''])
                       | (Inr None, t) \<Rightarrow> (SendStatus 404 ''Tile not found or empty.'', t)
                       | (Inr (Some tileBuffer), t) \<Rightarrow>
                           (SendTile (''image/'' @ imageFormat conf) tileBuffer, t)))
      | _ \<Rightarrow> (SendStatus 400 ''Missing parameters'', []))"

subsection \<open>Vocabulary of the statements\<close>

text \<open>
  The buffer of \<open>n\<close> bytes after \<^verbatim>\<open>Buffer.alloc(n)\<close> and one read of \<open>n\<close> bytes at the
  position \<open>pos\<close> of a file with the bytes \<open>bs\<close>: the bytes of the file from \<open>pos\<close> on,
  and zeros where the file has ended.
\<close>

definition read_at :: "byte list \<Rightarrow> nat \<Rightarrow> nat \<Rightarrow> byte list" where
  "read_at bs pos n = buffer_write (Buffer_alloc n) (take n (drop pos bs))"

text \<open>The byte of a file at an index, \<open>0\<close> past its end.\<close>

definition byte_at :: "byte list \<Rightarrow> nat \<Rightarrow> nat" where
  "byte_at bs i = (if i < length bs then unat (bs ! i) else 0)"

text \<open>
  The unsigned little-endian value of the five bytes, and of the four bytes, of a file
  from a position on.
\<close>

definition u40_at :: "byte list \<Rightarrow> nat \<Rightarrow> nat" where
  "u40_at bs pos =
     byte_at bs pos + 256 * byte_at bs (pos + 1) + 65536 * byte_at bs (pos + 2)
     + 16777216 * byte_at bs (pos + 3) + 4294967296 * byte_at bs (pos + 4)"

definition u32_at :: "byte list \<Rightarrow> nat \<Rightarrow> nat" where
  "u32_at bs pos =
     byte_at bs pos + 256 * byte_at bs (pos + 1) + 65536 * byte_at bs (pos + 2)
     + 16777216 * byte_at bs (pos + 3)"

text \<open>
  The two's-complement reading of an unsigned 32-bit value, by the word library, and the
  signed little-endian value of four bytes of a file.
\<close>

definition int32_of :: "nat \<Rightarrow> int" where
  "int32_of u = sint (word_of_nat u :: 32 word)"

definition i32_at :: "byte list \<Rightarrow> nat \<Rightarrow> int" where
  "i32_at bs pos = int32_of (u32_at bs pos)"

text \<open>The events of a trace that concern the file at one path.\<close>

fun event_path :: "event \<Rightarrow> string option" where
  "event_path (EvOpen p) = Some p"
| "event_path (EvOpenFailed p) = Some p"
| "event_path (EvRead p position len) = Some p"
| "event_path (EvClose p) = Some p"
| "event_path (ConsoleWarn d) = None"
| "event_path (ConsoleLog m) = None"
| "event_path (ConsoleError m) = None"

definition events_on :: "string \<Rightarrow> event list \<Rightarrow> event list" where
  "events_on p t = filter (\<lambda>e. event_path e = Some p) t"

text \<open>The paths of the handles a trace opens, and of those it closes, in order.\<close>

fun opens :: "event list \<Rightarrow> string list" where
  "opens [] = []"
| "opens (EvOpen p # t) = p # opens t"
| "opens (e # t) = opens t"

fun closes :: "event list \<Rightarrow> string list" where
  "closes [] = []"
| "closes (EvClose p # t) = p # closes t"
| "closes (e # t) = closes t"

subsection \<open>Example caches\<close>

text \<open>
  A V1 bundle group for level 1 in the directory \<open>d\<close>. The index holds three records
  after its 16-byte preamble: slot 0 points to offset 4, slot 1 to offset 11, slot 2 is
  zero. The data file holds a tile of 3 bytes at offset 4 (length, then \<open>7, 8, 9\<close>) and at
  offset 11 a length field of 1,000,001 (\<open>0x000F4241\<close>).
\<close>

definition example_bundlx :: "byte list" where
  "example_bundlx = replicate 16 0 @ [4, 0, 0, 0, 0] @ [11, 0, 0, 0, 0] @ [0, 0, 0, 0, 0]"

definition example_bundle_v1 :: "byte list" where
  "example_bundle_v1 = [0, 0, 0, 0] @ [3, 0, 0, 0] @ [7, 8, 9] @ [0x41, 0x42, 0x0F, 0]"

definition cache_v1 :: filesystem where
  "cache_v1 = (\<lambda>p. None)
     (''d/L01/R0000C0000.bundlx'' \<mapsto> File example_bundlx,
      ''d/L01/R0000C0000.bundle'' \<mapsto> File example_bundle_v1)"

text \<open>
  A V2 bundle for the same group: version 3 in the 64-byte header, then five records of
  8 bytes: slot 0 points to offset 108, slot 1 is zero, slot 2 points to offset 118,
  slot 3 holds \<open>0xFFFFFFFC\<close>, slot 4 points to offset 114. At offset 104 a length of 2 and
  the tile \<open>9, 8\<close>; at offset 110 a length of 0; at offset 114 a length of 1,000,001 and
  the bytes \<open>1, 2, 3\<close>, where the file ends.
\<close>

definition example_bundle_v2 :: "byte list" where
  "example_bundle_v2 =
     [3, 0, 0, 0] @ replicate 60 0
     @ [108, 0, 0, 0, 0, 0, 0, 0] @ [0, 0, 0, 0, 0, 0, 0, 0]
     @ [118, 0, 0, 0, 0, 0, 0, 0] @ [0xFC, 0xFF, 0xFF, 0xFF, 0, 0, 0, 0]
     @ [114, 0, 0, 0, 0, 0, 0, 0]
     @ [2, 0, 0, 0] @ [9, 8] @ [0, 0, 0, 0] @ [0x41, 0x42, 0x0F, 0] @ [1, 2, 3]"

definition cache_v2 :: filesystem where
  "cache_v2 = (\<lambda>p. None)(''d/L01/R0000C0000.bundle'' \<mapsto> File example_bundle_v2)"

text \<open>
  A cache with no files; the V1 cache without its data file; one whose index opens but
  cannot be read; and one whose data file opens but cannot be read.
\<close>

definition no_files :: filesystem where
  "no_files = (\<lambda>p. None)"

definition cache_v1_no_data :: filesystem where
  "cache_v1_no_data = (\<lambda>p. None)(''d/L01/R0000C0000.bundlx'' \<mapsto> File example_bundlx)"

definition cache_unreadable_index :: filesystem where
  "cache_unreadable_index = (\<lambda>p. None)(''d/L01/R0000C0000.bundlx'' \<mapsto> Unreadable)"

definition cache_unreadable_data :: filesystem where
  "cache_unreadable_data = (\<lambda>p. None)
     (''d/L01/R0000C0000.bundlx'' \<mapsto> File example_bundlx,
      ''d/L01/R0000C0000.bundle'' \<mapsto> Unreadable)"

text \<open>
  A V1 cache of packet size 64 at level 1 with the groups of columns 0 and 64. The index
  of the column group 64 (\<open>R0000C0040\<close>) holds one record, for column 70 and row 5: slot
  \<open>64 * (70 - 64) + 5 = 389\<close>, at byte offset \<open>16 + 5 * 389 = 1961\<close>, pointing to offset 4
  of its data file, where the tile \<open>7, 8, 9\<close> is. The index of the column group 0 is the
  one of the first example.
\<close>

definition example_bundlx_c40 :: "byte list" where
  "example_bundlx_c40 = replicate 1961 0 @ [4, 0, 0, 0, 0]"

definition cache_v1_ps64 :: filesystem where
  "cache_v1_ps64 = (\<lambda>p. None)
     (''d/L01/R0000C0000.bundlx'' \<mapsto> File example_bundlx,
      ''d/L01/R0000C0040.bundlx'' \<mapsto> File example_bundlx_c40,
      ''d/L01/R0000C0040.bundle'' \<mapsto> File example_bundle_v1)"

text \<open>A V2 cache whose bundle has the version 2 in its header.\<close>

definition cache_v2_version2 :: filesystem where
  "cache_v2_version2 = (\<lambda>p. None)
     (''d/L01/R0000C0000.bundle'' \<mapsto> File ([2, 0, 0, 0] @ replicate 60 0 @ [108, 0, 0, 0]))"

text \<open>
  The V2 bundle as the map \<open>m\<close> under the root \<open>image_tiles\<close>, and configurations of
  that map for each storage format.
\<close>

definition cache_route :: filesystem where
  "cache_route = (\<lambda>p. None)
     (''image_tiles/m/_alllayers/L01/R0000C0000.bundle'' \<mapsto> File example_bundle_v2)"

definition conf_of :: "tile_type \<Rightarrow> string \<Rightarrow> conf_xml_info option" where
  "conf_of t mapName = Some \<lparr> imageFormat = ''png'', tileType = t, packetSize = 128 \<rparr>"

section \<open>Properties of the address resolver\<close>

lemma digit_val_digit_char: "d < 16 \<Longrightarrow> digit_val (digit_char d) = d"
proof -
  assume "d < 16"
  then have "d \<in> set [0..<16]" by simp
  moreover have "\<forall>d \<in> set [0..<16]. digit_val (digit_char d) = d"
    by (simp add: upt_rec digit_val_def digit_char_def HEX_DIGITS_def)
  ultimately show ?thesis by blast
qed

lemma digit_char_in_take: "d < b \<Longrightarrow> b \<le> 16 \<Longrightarrow> digit_char d \<in> set (take b HEX_DIGITS)"
proof -
  assume "d < b" "b \<le> 16"
  have len: "length HEX_DIGITS = 16" by (simp add: HEX_DIGITS_def)
  have "take b HEX_DIGITS ! d = HEX_DIGITS ! d" using \<open>d < b\<close> by simp
  moreover have "d < length (take b HEX_DIGITS)" using \<open>d < b\<close> \<open>b \<le> 16\<close> len by simp
  ultimately show ?thesis unfolding digit_char_def by (metis nth_mem)
qed

lemma parse_radix_snoc: "parse_radix b (s @ [c]) = parse_radix b s * b + digit_val c"
  by (simp add: parse_radix_def)

lemma parse_radix_digits_nat:
  "2 \<le> b \<Longrightarrow> b \<le> 16 \<Longrightarrow> parse_radix b (digits_nat b n) = n"
proof (induction b n rule: digits_nat.induct)
  case (1 b n)
  show ?case
  proof (cases "n < b")
    case True
    then have "digits_nat b n = [digit_char n]" by (simp add: digits_nat.simps)
    moreover have "n < 16" using True "1.prems" by simp
    ultimately show ?thesis by (simp add: parse_radix_def digit_val_digit_char)
  next
    case False
    then have unf: "digits_nat b n = digits_nat b (n div b) @ [digit_char (n mod b)]"
      using "1.prems" by (subst digits_nat.simps) simp
    have ih: "parse_radix b (digits_nat b (n div b)) = n div b"
      using "1.IH" False "1.prems" by simp
    have "n mod b < b" using "1.prems" by simp
    then have "n mod b < 16" using "1.prems"(2) by linarith
    then show ?thesis
      by (simp add: unf parse_radix_snoc ih digit_val_digit_char)
  qed
qed

lemma set_digits_nat:
  "2 \<le> b \<Longrightarrow> b \<le> 16 \<Longrightarrow> set (digits_nat b n) \<subseteq> set (take b HEX_DIGITS)"
proof (induction b n rule: digits_nat.induct)
  case (1 b n)
  show ?case
  proof (cases "n < b")
    case True
    then have "digits_nat b n = [digit_char n]" by (simp add: digits_nat.simps)
    then show ?thesis using True "1.prems" by (simp add: digit_char_in_take)
  next
    case False
    then have unf: "digits_nat b n = digits_nat b (n div b) @ [digit_char (n mod b)]"
      using "1.prems" by (subst digits_nat.simps) simp
    have ih: "set (digits_nat b (n div b)) \<subseteq> set (take b HEX_DIGITS)"
      using "1.IH" False "1.prems" by simp
    have "n mod b < b" using "1.prems" by simp
    then have "digit_char (n mod b) \<in> set (take b HEX_DIGITS)"
      using "1.prems" by (simp add: digit_char_in_take)
    then show ?thesis using ih by (simp add: unf)
  qed
qed

lemma length_digits_nat_pos: "0 < length (digits_nat b n)"
  by (subst digits_nat.simps) simp

lemma length_digits_nat_le:
  "2 \<le> b \<Longrightarrow> n < b ^ k \<Longrightarrow> 0 < k \<Longrightarrow> length (digits_nat b n) \<le> k"
proof (induction b n arbitrary: k rule: digits_nat.induct)
  case (1 b n)
  show ?case
  proof (cases "n < b")
    case True
    then have "digits_nat b n = [digit_char n]" by (simp add: digits_nat.simps)
    then show ?thesis using "1.prems" by simp
  next
    case False
    then have unf: "digits_nat b n = digits_nat b (n div b) @ [digit_char (n mod b)]"
      using "1.prems" by (subst digits_nat.simps) simp
    obtain j where k: "k = Suc j" using "1.prems" by (cases k) auto
    have "j \<noteq> 0" using False "1.prems" k by (cases j) auto
    then have jpos: "0 < j" by simp
    have "n < b ^ j * b" using "1.prems" k by (simp add: mult.commute)
    then have "n div b < b ^ j" using "1.prems"
      by (simp add: less_mult_imp_div_less)
    then have "length (digits_nat b (n div b)) \<le> j"
      using "1.IH" False "1.prems" jpos by simp
    then show ?thesis by (simp add: unf k)
  qed
qed

lemma parse_radix_zeros: "parse_radix b (replicate k CHR ''0'' @ s) = parse_radix b s"
proof -
  have z: "digit_val CHR ''0'' = 0" by (simp add: digit_val_def HEX_DIGITS_def)
  have "foldl (\<lambda>acc c. acc * b + digit_val c) 0 (replicate k CHR ''0'') = 0"
    by (induction k) (simp_all add: z)
  then show ?thesis by (simp add: parse_radix_def)
qed

text \<open>What a padded number is: at least \<open>w\<close> digits of the radix that read back as it.\<close>

lemma padded_number:
  assumes "2 \<le> b" and "b \<le> 16" and "0 \<le> n"
  shows "parse_radix b (padStart w CHR ''0'' (toString_radix b n)) = nat n"
    and "set (padStart w CHR ''0'' (toString_radix b n)) \<subseteq> set (take b HEX_DIGITS)"
    and "w \<le> length (padStart w CHR ''0'' (toString_radix b n))"
    and "0 < w \<Longrightarrow> nat n < b ^ w \<Longrightarrow> length (padStart w CHR ''0'' (toString_radix b n)) = w"
proof -
  have ts: "toString_radix b n = digits_nat b (nat n)"
    using assms(3) by (simp add: toString_radix_def)
  show "parse_radix b (padStart w CHR ''0'' (toString_radix b n)) = nat n"
    using assms by (simp add: ts padStart_def parse_radix_zeros parse_radix_digits_nat)
  have "CHR ''0'' \<in> set (take b HEX_DIGITS)"
    using digit_char_in_take[of 0 b] assms by (simp add: digit_char_def HEX_DIGITS_def)
  then show "set (padStart w CHR ''0'' (toString_radix b n)) \<subseteq> set (take b HEX_DIGITS)"
    using set_digits_nat[OF assms(1,2), of "nat n"] by (auto simp: ts padStart_def)
  show "w \<le> length (padStart w CHR ''0'' (toString_radix b n))"
    by (simp add: padStart_def)
  show "length (padStart w CHR ''0'' (toString_radix b n)) = w"
    if "0 < w" "nat n < b ^ w"
    using length_digits_nat_le[OF assms(1) that(2) that(1)] by (simp add: ts padStart_def)
qed

lemma L_getBundleInfo:
  "L (getBundleInfo col row level p) = CHR ''L'' # padStart 2 CHR ''0'' (toString_radix 10 level)"
  by (simp add: getBundleInfo_def Let_def)

lemma R_getBundleInfo:
  "R (getBundleInfo col row level p) =
     CHR ''R'' # padStart 4 CHR ''0'' (toString_radix 16 (rGroup (getBundleInfo col row level p)))"
  by (simp add: getBundleInfo_def Let_def)

lemma C_getBundleInfo:
  "C (getBundleInfo col row level p) =
     CHR ''C'' # padStart 4 CHR ''0'' (toString_radix 16 (cGroup (getBundleInfo col row level p)))"
  by (simp add: getBundleInfo_def Let_def)

lemma rGroup_getBundleInfo:
  "rGroup (getBundleInfo col row level p) =
     (row div (case p of None \<Rightarrow> 128 | Some q \<Rightarrow> q)) * (case p of None \<Rightarrow> 128 | Some q \<Rightarrow> q)"
  by (simp add: getBundleInfo_def Let_def)

lemma cGroup_getBundleInfo:
  "cGroup (getBundleInfo col row level p) =
     (col div (case p of None \<Rightarrow> 128 | Some q \<Rightarrow> q)) * (case p of None \<Rightarrow> 128 | Some q \<Rightarrow> q)"
  by (simp add: getBundleInfo_def Let_def)

lemma padded_zero: "padStart 4 CHR ''0'' (toString_radix 16 0) = ''0000''"
  by code_simp

lemma take_10_HEX: "take 10 HEX_DIGITS = ''0123456789''"
  by (simp add: HEX_DIGITS_def)

text \<open>
  C7. For a positive packet size and a tile address of non-negative numbers, the group
  coordinates are \<open>floor(row / packetSize) * packetSize\<close> and
  \<open>floor(column / packetSize) * packetSize\<close>. The file stem is \<open>L\<close> and the level in
  decimal digits, \<open>R\<close> and the row group in lowercase hexadecimal digits, \<open>C\<close> and the
  column group likewise: each digit string reads back as its number, is zero-padded to
  2 (level) or 4 (groups) digits, and has exactly that many when the number fits (level
  below 100, group below \<open>16^4\<close>). For \<open>row, column < packetSize\<close> the stem is
  \<open>R0000C0000\<close>.
\<close>

theorem getBundleInfo_group_and_stem:
  assumes "0 < ps" and "0 \<le> row" and "0 \<le> col" and "0 \<le> level"
  shows "rGroup (getBundleInfo col row level (Some ps)) = \<lfloor>real_of_int row / real_of_int ps\<rfloor> * ps
       \<and> cGroup (getBundleInfo col row level (Some ps)) = \<lfloor>real_of_int col / real_of_int ps\<rfloor> * ps
       \<and> (\<exists>l r c.
             L (getBundleInfo col row level (Some ps)) = CHR ''L'' # l
           \<and> R (getBundleInfo col row level (Some ps)) = CHR ''R'' # r
           \<and> C (getBundleInfo col row level (Some ps)) = CHR ''C'' # c
           \<and> set l \<subseteq> set ''0123456789'' \<and> 2 \<le> length l \<and> (level < 100 \<longrightarrow> length l = 2)
           \<and> int (parse_radix 10 l) = level
           \<and> set r \<subseteq> set HEX_DIGITS \<and> 4 \<le> length r
           \<and> (rGroup (getBundleInfo col row level (Some ps)) < 65536 \<longrightarrow> length r = 4)
           \<and> int (parse_radix 16 r) = rGroup (getBundleInfo col row level (Some ps))
           \<and> set c \<subseteq> set HEX_DIGITS \<and> 4 \<le> length c
           \<and> (cGroup (getBundleInfo col row level (Some ps)) < 65536 \<longrightarrow> length c = 4)
           \<and> int (parse_radix 16 c) = cGroup (getBundleInfo col row level (Some ps)))
       \<and> (row < ps \<and> col < ps \<longrightarrow>
             R (getBundleInfo col row level (Some ps)) @ C (getBundleInfo col row level (Some ps))
               = ''R0000C0000'')"
proof -
  let ?info = "getBundleInfo col row level (Some ps)"
  let ?l = "padStart 2 CHR ''0'' (toString_radix 10 level)"
  let ?r = "padStart 4 CHR ''0'' (toString_radix 16 (rGroup ?info))"
  let ?c = "padStart 4 CHR ''0'' (toString_radix 16 (cGroup ?info))"
  have rg: "rGroup ?info = (row div ps) * ps" and cg: "cGroup ?info = (col div ps) * ps"
    by (simp_all add: rGroup_getBundleInfo cGroup_getBundleInfo)
  have rg0: "0 \<le> rGroup ?info" and cg0: "0 \<le> cGroup ?info"
    using assms by (simp_all add: rg cg pos_imp_zdiv_nonneg_iff)
  have fl: "rGroup ?info = \<lfloor>real_of_int row / real_of_int ps\<rfloor> * ps"
           "cGroup ?info = \<lfloor>real_of_int col / real_of_int ps\<rfloor> * ps"
    by (simp_all add: rg cg floor_divide_of_int_eq)
  have lprops: "set ?l \<subseteq> set ''0123456789''" "2 \<le> length ?l" "level < 100 \<longrightarrow> length ?l = 2"
      "int (parse_radix 10 ?l) = level"
  proof -
    show "set ?l \<subseteq> set ''0123456789''"
      using padded_number(2)[of 10 level 2] assms(4) by (simp add: take_10_HEX)
    show "2 \<le> length ?l" using padded_number(3)[of 10 level 2] assms(4) by simp
    show "level < 100 \<longrightarrow> length ?l = 2"
      using padded_number(4)[of 10 level 2] assms(4) by auto
    show "int (parse_radix 10 ?l) = level"
      using padded_number(1)[of 10 level 2] assms(4) by simp
  qed
  have hexprops: "set (padStart 4 CHR ''0'' (toString_radix 16 g)) \<subseteq> set HEX_DIGITS
       \<and> 4 \<le> length (padStart 4 CHR ''0'' (toString_radix 16 g))
       \<and> (g < 65536 \<longrightarrow> length (padStart 4 CHR ''0'' (toString_radix 16 g)) = 4)
       \<and> int (parse_radix 16 (padStart 4 CHR ''0'' (toString_radix 16 g))) = g"
    if "0 \<le> g" for g :: int
  proof -
    have "take 16 HEX_DIGITS = HEX_DIGITS" by (simp add: HEX_DIGITS_def)
    then have "set (padStart 4 CHR ''0'' (toString_radix 16 g)) \<subseteq> set HEX_DIGITS"
      using padded_number(2)[of 16 g 4] that by simp
    moreover have "4 \<le> length (padStart 4 CHR ''0'' (toString_radix 16 g))"
      using padded_number(3)[of 16 g 4] that by simp
    moreover have "g < 65536 \<longrightarrow> length (padStart 4 CHR ''0'' (toString_radix 16 g)) = 4"
      using padded_number(4)[of 16 g 4] that by auto
    moreover have "int (parse_radix 16 (padStart 4 CHR ''0'' (toString_radix 16 g))) = g"
      using padded_number(1)[of 16 g 4] that by simp
    ultimately show ?thesis by blast
  qed
  have stem: "row < ps \<and> col < ps \<longrightarrow> R ?info @ C ?info = ''R0000C0000''"
  proof
    assume lt: "row < ps \<and> col < ps"
    then have "rGroup ?info = 0" "cGroup ?info = 0"
      using assms by (simp_all add: rg cg div_pos_pos_trivial)
    then show "R ?info @ C ?info = ''R0000C0000''"
      by (simp add: R_getBundleInfo C_getBundleInfo padded_zero)
  qed
  have ex: "\<exists>l r c.
             L ?info = CHR ''L'' # l \<and> R ?info = CHR ''R'' # r \<and> C ?info = CHR ''C'' # c
           \<and> set l \<subseteq> set ''0123456789'' \<and> 2 \<le> length l \<and> (level < 100 \<longrightarrow> length l = 2)
           \<and> int (parse_radix 10 l) = level
           \<and> set r \<subseteq> set HEX_DIGITS \<and> 4 \<le> length r
           \<and> (rGroup ?info < 65536 \<longrightarrow> length r = 4)
           \<and> int (parse_radix 16 r) = rGroup ?info
           \<and> set c \<subseteq> set HEX_DIGITS \<and> 4 \<le> length c
           \<and> (cGroup ?info < 65536 \<longrightarrow> length c = 4)
           \<and> int (parse_radix 16 c) = cGroup ?info"
    apply (rule exI[of _ ?l], rule exI[of _ ?r], rule exI[of _ ?c])
    using lprops hexprops[OF rg0] hexprops[OF cg0]
    by (simp only: L_getBundleInfo R_getBundleInfo C_getBundleInfo) blast
  show ?thesis using fl ex stem by blast
qed

text \<open>The resolver at \<open>packetSize = 128, row = 200, column = 5\<close> and at row \<open>100\<close>.\<close>

lemma getBundleInfo_at_200:  "getBundleInfo 5 200 12 (Some 128) = \<lparr>L = ''L12'', R = ''R0080'', C = ''C0000'', rGroup = 128, cGroup = 0\<rparr>"
  by code_simp

lemma getBundleInfo_at_100: "getBundleInfo 5 100 12 (Some 128) = \<lparr>L = ''L12'', R = ''R0000'', C = ''C0000'', rGroup = 0, cGroup = 0\<rparr>"
  by code_simp

theorem getBundleInfo_group_and_stem_witness:
  "(0::int) < 128 \<and> (0::int) \<le> 200 \<and> (0::int) \<le> 5 \<and> (0::int) \<le> 12
   \<and> rGroup (getBundleInfo 5 200 12 (Some 128)) = 128
   \<and> cGroup (getBundleInfo 5 200 12 (Some 128)) = 0
   \<and> L (getBundleInfo 5 200 12 (Some 128)) = ''L12''
   \<and> R (getBundleInfo 5 200 12 (Some 128)) = ''R0080''
   \<and> C (getBundleInfo 5 200 12 (Some 128)) = ''C0000''
   \<and> (5::int) < 128 \<and> (100::int) < 128
   \<and> R (getBundleInfo 5 100 12 (Some 128)) @ C (getBundleInfo 5 100 12 (Some 128)) = ''R0000C0000''"
  using getBundleInfo_group_and_stem[of 128 200 5 12] getBundleInfo_group_and_stem[of 128 100 5 12]
  unfolding getBundleInfo_at_200 getBundleInfo_at_100 by simp

section \<open>Buffers read from files\<close>

lemma length_read_at: "length (read_at bs pos n) = n"
  by (simp add: read_at_def buffer_write_def Buffer_alloc_def)

lemma nth_read_at_byte:
  "i < n \<Longrightarrow> read_at bs pos n ! i = (if pos + i < length bs then bs ! (pos + i) else 0)"
  by (auto simp: read_at_def buffer_write_def Buffer_alloc_def nth_append add.commute)

lemma nth_read_at:
  "i < n \<Longrightarrow> unat (read_at bs pos n ! i) = byte_at bs (pos + i)"
  by (simp add: nth_read_at_byte byte_at_def)

lemma take_read_at: "m \<le> n \<Longrightarrow> take m (read_at bs pos n) = read_at bs pos m"
  by (rule nth_equalityI) (simp_all add: length_read_at nth_read_at_byte)

lemma le_nat_sum: "le_nat xs = (\<Sum>i<length xs. unat (xs ! i) * 256 ^ i)"
proof (induction xs)
  case Nil
  then show ?case by simp
next
  case (Cons b xs)
  have "(\<Sum>i<Suc (length xs). unat ((b # xs) ! i) * 256 ^ i)
        = unat b + (\<Sum>i<length xs. unat (xs ! i) * 256 ^ Suc i)"
    by (subst sum.lessThan_Suc_shift) simp
  also have "\<dots> = unat b + 256 * (\<Sum>i<length xs. unat (xs ! i) * 256 ^ i)"
    by (simp add: sum_distrib_left mult.assoc mult.left_commute)
  finally show ?case using Cons.IH by simp
qed

lemma le_nat_read_at:
  "le_nat (read_at bs pos n) = (\<Sum>i<n. byte_at bs (pos + i) * 256 ^ i)"
  by (simp add: le_nat_sum length_read_at nth_read_at)

lemma sum_upto_4: "(\<Sum>i<4. f i) = f 0 + f 1 + f 2 + (f 3 :: nat)" for f :: "nat \<Rightarrow> nat"
  by (simp add: numeral_eq_Suc lessThan_Suc)

lemma sum_upto_5: "(\<Sum>i<5. f i) = f 0 + f 1 + f 2 + f 3 + (f 4 :: nat)" for f :: "nat \<Rightarrow> nat"
  by (simp add: numeral_eq_Suc lessThan_Suc)

lemma le_nat_read_at_4: "le_nat (read_at bs pos 4) = u32_at bs pos"
  by (simp add: le_nat_read_at sum_upto_4 u32_at_def)

lemma le_nat_read_at_5: "le_nat (read_at bs pos 5) = u40_at bs pos"
  by (simp add: le_nat_read_at sum_upto_5 u40_at_def)

lemma readUIntLE_read_at: "readUIntLE (read_at bs pos 5) 0 5 = int (u40_at bs pos)"
  using length_read_at[of bs pos 5] by (simp add: readUIntLE_def le_nat_read_at_5)

lemma le_nat_bound: "le_nat xs < 256 ^ length xs"
proof (induction xs)
  case Nil
  then show ?case by simp
next
  case (Cons b xs)
  have "unat b < 256" using unsigned_less[of b, where ?'a = nat] by simp
  then show ?case using Cons.IH by simp
qed

lemma sint_word_of_nat_32:
  assumes "u < 2 ^ 32"
  shows "sint (word_of_nat u :: 32 word) = (if int u < 2 ^ 31 then int u else int u - 2 ^ 32)"
proof -
  have s: "sint (word_of_nat u :: 32 word) = signed_take_bit 31 (int u)"
    by (simp add: signed_of_nat)
  have sh: "signed_take_bit 31 (int u) = (int u + 2 ^ 31) mod 2 ^ 32 - 2 ^ 31"
    by (simp add: signed_take_bit_eq_take_bit_shift take_bit_eq_mod)
  have ub: "int u < 2 ^ 32" using assms by (simp add: of_nat_less_numeral_power_cancel_iff)
  show ?thesis
  proof (cases "int u < 2 ^ 31")
    case True
    then have "(int u + 2 ^ 31) mod 2 ^ 32 = int u + 2 ^ 31"
      by (intro mod_pos_pos_trivial) simp_all
    then show ?thesis using True by (simp add: s sh)
  next
    case False
    have "(int u + 2 ^ 31) mod 2 ^ 32 = (int u + 2 ^ 31 - 2 ^ 32) mod 2 ^ 32"
      by (metis mod_diff_right_eq mod_self diff_zero)
    also have "\<dots> = int u + 2 ^ 31 - 2 ^ 32"
      using False ub by (intro mod_pos_pos_trivial) simp_all
    finally show ?thesis using False by (simp add: s sh)
  qed
qed


lemma readInt32LE_read_at: "readInt32LE (read_at bs pos 4) 0 = i32_at bs pos"
proof -
  let ?u = "le_nat (read_at bs pos 4)"
  have b: "?u < 2 ^ 32" using le_nat_bound[of "read_at bs pos 4"] by (simp add: length_read_at)
  have t: "take 4 (read_at bs pos 4) = read_at bs pos 4" by (simp add: length_read_at)
  show ?thesis
    unfolding i32_at_def le_nat_read_at_4[symmetric] int32_of_def sint_word_of_nat_32[OF b]
    by (simp add: readInt32LE_def Let_def t)
qed

lemma readUInt32LE_read_at: "readUInt32LE (read_at bs pos 64) 0 = int (u32_at bs pos)"
proof -
  have "take 4 (read_at bs pos 64) = read_at bs pos 4"
    by (simp add: take_read_at)
  then show ?thesis by (simp add: readUInt32LE_def le_nat_read_at_4)
qed

subsection \<open>Opening and reading files\<close>

lemma fs_open_Some:
  "fs p = Some nd \<Longrightarrow> fs_open fs p = Inr \<lparr> fh_path = p, fh_node = nd, fh_pos = 0 \<rparr>"
  by (simp add: fs_open_def)

lemma fs_open_None: "fs p = None \<Longrightarrow> fs_open fs p = Inl (ENOENT p)"
  by (simp add: fs_open_def)

lemma fd_read_File:
  "fh_node fh = File bs \<Longrightarrow> 0 \<le> position \<Longrightarrow>
   fd_read fh (Buffer_alloc n) n position = Inr (read_at bs (nat position) n, fh)"
  by (simp add: fd_read_def read_at_def)

lemma fd_read_Unreadable:
  "fh_node fh = Unreadable \<Longrightarrow> fd_read fh buf n position = Inl (EIO (fh_path fh))"
  by (simp add: fd_read_def)

lemma bundle_neq_bundlx:
  "path_join [dir, l, rc @ ''.bundle''] \<noteq> path_join [dir, l, rc @ ''.bundlx'']"
  by simp

lemma group_offset_nonneg:
  "0 < p \<Longrightarrow> 0 \<le> a - (a div p) * p" for a p :: int
  by (simp add: minus_div_mult_eq_mod)

lemma fd_read_fresh:
  "fd_read \<lparr> fh_path = p, fh_node = File bs, fh_pos = 0 \<rparr> (Buffer_alloc n) n position =
     Inr (read_at bs (nat position) n,
          \<lparr> fh_path = p, fh_node = File bs,
            fh_pos = (if position < 0 then length (take n bs) else 0) \<rparr>)"
  by (simp add: fd_read_def read_at_def Let_def)

lemma readUIntLE_nonneg: "0 \<le> readUIntLE buf off n"
  by (simp add: readUIntLE_def)

lemma bundle_neq_bundlx':
  "path_join [dir, l, r @ c @ ''.bundle''] \<noteq> path_join [dir, l, r @ c @ ''.bundlx'']"
  by simp

section \<open>The paths through \<^verbatim>\<open>readTileV1\<close>\<close>

text \<open>One lemma for each way the function can end: what it returns and the events, in order.\<close>

lemma readTileV1_no_index:
  assumes "info = getBundleInfo x y z None"
    and "bundlx = path_join [dir, L info, R info @ C info @ ''.bundlx'']"
    and "fs bundlx = None"
  shows "readTileV1 fs dir z x y p = (Inl (ENOENT bundlx), [EvOpenFailed bundlx])"
  using assms(3) unfolding assms(1,2)
  by (simp add: readTileV1_def Let_def fs_open_def)

lemma readTileV1_index_unreadable:
  assumes "info = getBundleInfo x y z None"
    and "bundlx = path_join [dir, L info, R info @ C info @ ''.bundlx'']"
    and "ps = (case p of None \<Rightarrow> 128 | Some q \<Rightarrow> q)"
    and "slotIndex = ps * (x - cGroup info) + (y - rGroup info)"
    and "fs bundlx = Some Unreadable"
  shows "readTileV1 fs dir z x y p =
           (Inl (EIO bundlx), [EvOpen bundlx, EvRead bundlx (16 + 5 * slotIndex) 5])"
  using assms(5) unfolding assms(1,2,3,4)
  by (simp add: readTileV1_def Let_def fs_open_def fd_read_def)

lemma readTileV1_absent:
  assumes "info = getBundleInfo x y z None"
    and "bundlx = path_join [dir, L info, R info @ C info @ ''.bundlx'']"
    and "ps = (case p of None \<Rightarrow> 128 | Some q \<Rightarrow> q)"
    and "slotIndex = ps * (x - cGroup info) + (y - rGroup info)"
    and "fs bundlx = Some (File ibs)"
    and "readUIntLE (read_at ibs (nat (16 + 5 * slotIndex)) 5) 0 5 = 0"
  shows "readTileV1 fs dir z x y p =
           (Inr None, [EvOpen bundlx, EvRead bundlx (16 + 5 * slotIndex) 5, EvClose bundlx,
                       ConsoleWarn (V1_TileNotInBundle z x y)])"
  using assms(5,6) unfolding assms(1,2,3,4)
  by (simp add: readTileV1_def Let_def fs_open_def fd_read_fresh)

lemma readTileV1_no_bundle:
  assumes "info = getBundleInfo x y z None"
    and "bundlx = path_join [dir, L info, R info @ C info @ ''.bundlx'']"
    and "bundle = path_join [dir, L info, R info @ C info @ ''.bundle'']"
    and "ps = (case p of None \<Rightarrow> 128 | Some q \<Rightarrow> q)"
    and "slotIndex = ps * (x - cGroup info) + (y - rGroup info)"
    and "fs bundlx = Some (File ibs)"
    and "readUIntLE (read_at ibs (nat (16 + 5 * slotIndex)) 5) 0 5 \<noteq> 0"
    and "fs bundle = None"
  shows "readTileV1 fs dir z x y p =
           (Inl (ENOENT bundle),
            [EvOpen bundlx, EvRead bundlx (16 + 5 * slotIndex) 5, EvClose bundlx,
             EvOpenFailed bundle])"
  using assms(6,7,8) unfolding assms(1,2,3,4,5)
  by (simp add: readTileV1_def Let_def fs_open_def fd_read_fresh)

lemma readTileV1_bundle_unreadable:
  assumes "info = getBundleInfo x y z None"
    and "bundlx = path_join [dir, L info, R info @ C info @ ''.bundlx'']"
    and "bundle = path_join [dir, L info, R info @ C info @ ''.bundle'']"
    and "ps = (case p of None \<Rightarrow> 128 | Some q \<Rightarrow> q)"
    and "slotIndex = ps * (x - cGroup info) + (y - rGroup info)"
    and "fs bundlx = Some (File ibs)"
    and "offset = readUIntLE (read_at ibs (nat (16 + 5 * slotIndex)) 5) 0 5"
    and "offset \<noteq> 0"
    and "fs bundle = Some Unreadable"
  shows "readTileV1 fs dir z x y p =
           (Inl (EIO bundle),
            [EvOpen bundlx, EvRead bundlx (16 + 5 * slotIndex) 5, EvClose bundlx,
             EvOpen bundle, EvRead bundle offset 4])"
  using assms(6,8,9) unfolding assms(1,2,3,4,5,7)
  by (simp add: readTileV1_def Let_def fs_open_def fd_read_fresh fd_read_Unreadable)

lemma readTileV1_bad_length:
  assumes "info = getBundleInfo x y z None"
    and "bundlx = path_join [dir, L info, R info @ C info @ ''.bundlx'']"
    and "bundle = path_join [dir, L info, R info @ C info @ ''.bundle'']"
    and "ps = (case p of None \<Rightarrow> 128 | Some q \<Rightarrow> q)"
    and "slotIndex = ps * (x - cGroup info) + (y - rGroup info)"
    and "fs bundlx = Some (File ibs)"
    and "offset = readUIntLE (read_at ibs (nat (16 + 5 * slotIndex)) 5) 0 5"
    and "offset \<noteq> 0"
    and "fs bundle = Some (File dbs)"
    and "len = readInt32LE (read_at dbs (nat offset) 4) 0"
    and "len \<le> 0 \<or> 1000000 < len"
  shows "readTileV1 fs dir z x y p =
           (Inr None,
            [EvOpen bundlx, EvRead bundlx (16 + 5 * slotIndex) 5, EvClose bundlx,
             EvOpen bundle, EvRead bundle offset 4, ConsoleWarn (V1_InvalidLength len),
             EvClose bundle])"
  using assms(6,8,9,11) unfolding assms(1,2,3,4,5,7,10)
  by (simp add: readTileV1_def Let_def fs_open_def fd_read_fresh)

lemma readTileV1_tile:
  assumes "info = getBundleInfo x y z None"
    and "bundlx = path_join [dir, L info, R info @ C info @ ''.bundlx'']"
    and "bundle = path_join [dir, L info, R info @ C info @ ''.bundle'']"
    and "ps = (case p of None \<Rightarrow> 128 | Some q \<Rightarrow> q)"
    and "slotIndex = ps * (x - cGroup info) + (y - rGroup info)"
    and "fs bundlx = Some (File ibs)"
    and "offset = readUIntLE (read_at ibs (nat (16 + 5 * slotIndex)) 5) 0 5"
    and "offset \<noteq> 0"
    and "fs bundle = Some (File dbs)"
    and "len = readInt32LE (read_at dbs (nat offset) 4) 0"
    and "0 < len" and "len \<le> 1000000"
  shows "readTileV1 fs dir z x y p =
           (Inr (Some (read_at dbs (nat (offset + 4)) (nat len))),
            [EvOpen bundlx, EvRead bundlx (16 + 5 * slotIndex) 5, EvClose bundlx,
             EvOpen bundle, EvRead bundle offset 4, EvRead bundle (offset + 4) (nat len),
             EvClose bundle])"
proof -
  have nn: "0 \<le> offset" unfolding assms(7) by (rule readUIntLE_nonneg)
  show ?thesis
    using assms(6,8,9,11,12) nn unfolding assms(1,2,3,4,5,7,10)
    by (simp add: readTileV1_def Let_def fs_open_def fd_read_fresh fd_read_File)
qed

section \<open>The V1 index record\<close>

text \<open>
  What the V1 decoder reads, for a tile address of non-negative numbers and a positive
  packet size: the index file \<open>.bundlx\<close> exactly once, 5 bytes at byte offset
  \<open>16 + 5 * slotIndex\<close> with
  \<open>slotIndex = packetSize * (x - cGroup) + (y - rGroup)\<close>, where \<open>x\<close> is the column, \<open>y\<close>
  the row, and \<open>cGroup\<close>, \<open>rGroup\<close> are what the decoder's call \<^verbatim>\<open>getBundleInfo(x, y, z)\<close>
  returned: the groups of packet size 128, whatever the packet size passed. At packet
  size 128 the slot index is \<open>128 * (x mod 128) + (y mod 128)\<close>, column-major, inside the
  table of \<open>128 * 128\<close> records. The little-endian unsigned value of those 5 bytes is the
  data offset: when it is zero the call ends with the tile absent, and otherwise the
  data file is opened and read at that offset first.
\<close>

theorem readTileV1_index_record:
  assumes "0 < ps" and "0 \<le> x" and "0 \<le> y"
    and "info = getBundleInfo x y z None"
    and "bundlx = path_join [dir, L info, R info @ C info @ ''.bundlx'']"
    and "bundle = path_join [dir, L info, R info @ C info @ ''.bundle'']"
    and "slotIndex = ps * (x - cGroup info) + (y - rGroup info)"
    and "fs bundlx = Some (File ibs)"
    and "dataOffset = u40_at ibs (nat (16 + 5 * slotIndex))"
    and "r = readTileV1 fs dir z x y (Some ps)"
  shows "0 \<le> slotIndex
       \<and> (ps = 128 \<longrightarrow> slotIndex = 128 * (x mod 128) + y mod 128 \<and> slotIndex < 128 * 128)
       \<and> events_on bundlx (snd r) =
            [EvOpen bundlx, EvRead bundlx (16 + 5 * slotIndex) 5, EvClose bundlx]
       \<and> (dataOffset = 0 \<longrightarrow>
            r = (Inr None, [EvOpen bundlx, EvRead bundlx (16 + 5 * slotIndex) 5, EvClose bundlx,
                            ConsoleWarn (V1_TileNotInBundle z x y)]))
       \<and> (dataOffset \<noteq> 0 \<and> fs bundle = None \<longrightarrow>
            r = (Inl (ENOENT bundle),
                 [EvOpen bundlx, EvRead bundlx (16 + 5 * slotIndex) 5, EvClose bundlx,
                  EvOpenFailed bundle]))
       \<and> (dataOffset \<noteq> 0 \<and> fs bundle \<noteq> None \<longrightarrow>
            take 5 (snd r) =
              [EvOpen bundlx, EvRead bundlx (16 + 5 * slotIndex) 5, EvClose bundlx,
               EvOpen bundle, EvRead bundle (int dataOffset) 4])"
proof -
  let ?pre = "[EvOpen bundlx, EvRead bundlx (16 + 5 * slotIndex) 5, EvClose bundlx]"
  have cg: "cGroup info = (x div 128) * 128" and rg: "rGroup info = (y div 128) * 128"
    by (simp_all add: assms(4) cGroup_getBundleInfo rGroup_getBundleInfo)
  have "0 \<le> x - cGroup info" "0 \<le> y - rGroup info"
    unfolding cg rg by (simp_all add: group_offset_nonneg)
  then have idx: "0 \<le> slotIndex" using assms(1) by (simp add: assms(7))
  have major: "slotIndex = 128 * (x mod 128) + y mod 128 \<and> slotIndex < 128 * 128" if "ps = 128"
  proof -
    have "slotIndex = 128 * (x mod 128) + y mod 128"
      by (simp add: assms(7) cg rg that minus_div_mult_eq_mod)
    moreover have "x mod 128 \<le> 127" "y mod 128 \<le> 127"
      using pos_mod_bound[of 128 x] pos_mod_bound[of 128 y] by simp_all
    ultimately show ?thesis by simp
  qed
  have ne: "bundle \<noteq> bundlx" unfolding assms(5,6) by (rule bundle_neq_bundlx')
  have ps: "ps = (case Some ps of None \<Rightarrow> 128 | Some q \<Rightarrow> q)" by simp
  have off: "readUIntLE (read_at ibs (nat (16 + 5 * slotIndex)) 5) 0 5 = int dataOffset"
    by (simp only: readUIntLE_read_at assms(9))
  note ctx = assms(4,5) ps assms(7,8)
  have zero: "r = (Inr None, ?pre @ [ConsoleWarn (V1_TileNotInBundle z x y)])"
    if "dataOffset = 0"
    unfolding assms(10) using readTileV1_absent[where fs=fs and p="Some ps" and dir=dir, OF ctx] off that by simp
  note ctx' = assms(4,5,6) ps assms(7,8) off[symmetric]
  have nz: "int dataOffset \<noteq> 0" if "dataOffset \<noteq> 0" using that by simp
  have missing: "r = (Inl (ENOENT bundle), ?pre @ [EvOpenFailed bundle])"
    if "dataOffset \<noteq> 0" "fs bundle = None"
    unfolding assms(10)
    using readTileV1_no_bundle[where fs=fs and p="Some ps" and dir=dir, OF assms(4,5,6) ps assms(7,8) _ that(2)] off that(1) by simp
  have present: "\<exists>rest. snd r = ?pre @ [EvOpen bundle, EvRead bundle (int dataOffset) 4] @ rest
                     \<and> events_on bundlx rest = []"
    if d: "dataOffset \<noteq> 0" and nd: "fs bundle = Some nd" for nd
  proof (cases nd)
    case Unreadable
    then have "snd r = ?pre @ [EvOpen bundle, EvRead bundle (int dataOffset) 4] @ []"
      unfolding assms(10)
      using readTileV1_bundle_unreadable[where fs=fs and p="Some ps" and dir=dir, OF ctx' nz[OF d]] nd by simp
    then show ?thesis by (simp add: events_on_def)
  next
    case (File dbs)
    then have f: "fs bundle = Some (File dbs)" using nd by simp
    let ?len = "readInt32LE (read_at dbs (nat (int dataOffset)) 4) 0"
    show ?thesis
    proof (cases "?len \<le> 0 \<or> 1000000 < ?len")
      case True
      have "snd r = ?pre @ [EvOpen bundle, EvRead bundle (int dataOffset) 4]
                       @ [ConsoleWarn (V1_InvalidLength ?len), EvClose bundle]"
        unfolding assms(10)
        using readTileV1_bad_length[where fs=fs and p="Some ps" and dir=dir, OF ctx' nz[OF d] f refl True] by simp
      then show ?thesis using ne by (simp add: events_on_def)
    next
      case False
      then have "0 < ?len" "?len \<le> 1000000" by simp_all
      then have "snd r = ?pre @ [EvOpen bundle, EvRead bundle (int dataOffset) 4]
                       @ [EvRead bundle (int dataOffset + 4) (nat ?len), EvClose bundle]"
        unfolding assms(10)
        using readTileV1_tile[where fs=fs and p="Some ps" and dir=dir, OF ctx' nz[OF d] f refl] by simp
      then show ?thesis using ne by (simp add: events_on_def)
    qed
  qed
  have on_pre: "events_on bundlx ?pre = ?pre" by (simp add: events_on_def)
  have ev: "events_on bundlx (snd r) = ?pre"
  proof (cases "dataOffset = 0")
    case True
    then show ?thesis using zero by (simp add: events_on_def)
  next
    case False
    show ?thesis
    proof (cases "fs bundle")
      case None
      then show ?thesis using missing[OF False] ne by (simp add: events_on_def)
    next
      case (Some nd)
      from present[OF False Some] obtain rest where
        "snd r = ?pre @ [EvOpen bundle, EvRead bundle (int dataOffset) 4] @ rest"
        "events_on bundlx rest = []" by blast
      then show ?thesis using ne by (simp add: events_on_def)
    qed
  qed
  have tk: "take 5 (snd r) = ?pre @ [EvOpen bundle, EvRead bundle (int dataOffset) 4]"
    if "dataOffset \<noteq> 0" "fs bundle \<noteq> None"
  proof -
    from that(2) obtain nd where "fs bundle = Some nd" by auto
    from present[OF that(1) this] obtain rest where
      "snd r = ?pre @ [EvOpen bundle, EvRead bundle (int dataOffset) 4] @ rest" by blast
    then show ?thesis by simp
  qed
  have major': "ps = 128 \<longrightarrow> slotIndex = 128 * (x mod 128) + y mod 128 \<and> slotIndex < 128 * 128"
    using major by blast
  show ?thesis
    apply (intro conjI)
    subgoal using idx .
    subgoal using major' .
    subgoal using ev .
    subgoal using zero by simp
    subgoal using missing by simp
    subgoal using tk by simp
    done
qed



text \<open>The example V1 cache at the slots 0 and 128.\<close>

lemma getBundleInfo_0_0: "getBundleInfo 0 0 1 None = \<lparr>L = ''L01'', R = ''R0000'', C = ''C0000'', rGroup = 0, cGroup = 0\<rparr>"
  by code_simp
lemma getBundleInfo_1_0: "getBundleInfo 1 0 1 None = \<lparr>L = ''L01'', R = ''R0000'', C = ''C0000'', rGroup = 0, cGroup = 0\<rparr>"
  by code_simp

lemma example_bundlx_slot0: "u40_at example_bundlx 16 = 4"
  by (simp add: u40_at_def byte_at_def example_bundlx_def nth_append)
lemma example_bundlx_slot128: "u40_at example_bundlx 656 = 0"
  by (simp add: u40_at_def byte_at_def example_bundlx_def nth_append)

lemma cache_v1_files:
  "cache_v1 ''d/L01/R0000C0000.bundlx'' = Some (File example_bundlx)"
  "cache_v1 ''d/L01/R0000C0000.bundle'' = Some (File example_bundle_v1)"
  by (simp_all add: cache_v1_def)

theorem readTileV1_index_record_witness:
  "events_on ''d/L01/R0000C0000.bundlx'' (snd (readTileV1 cache_v1 ''d'' 1 0 0 (Some 128))) =
     [EvOpen ''d/L01/R0000C0000.bundlx'', EvRead ''d/L01/R0000C0000.bundlx'' 16 5,
      EvClose ''d/L01/R0000C0000.bundlx'']
   \<and> take 5 (snd (readTileV1 cache_v1 ''d'' 1 0 0 (Some 128))) =
     [EvOpen ''d/L01/R0000C0000.bundlx'', EvRead ''d/L01/R0000C0000.bundlx'' 16 5,
      EvClose ''d/L01/R0000C0000.bundlx'', EvOpen ''d/L01/R0000C0000.bundle'',
      EvRead ''d/L01/R0000C0000.bundle'' 4 4]
   \<and> readTileV1 cache_v1 ''d'' 1 1 0 (Some 128) =
     (Inr None,
      [EvOpen ''d/L01/R0000C0000.bundlx'', EvRead ''d/L01/R0000C0000.bundlx'' 656 5,
       EvClose ''d/L01/R0000C0000.bundlx'', ConsoleWarn (V1_TileNotInBundle 1 1 0)])"
proof -
  note a = readTileV1_index_record[where ps=128 and x=0 and y=0 and z=1 and dir="''d''"
      and fs=cache_v1 and ibs=example_bundlx, OF _ _ _ refl refl refl refl _ refl refl]
  note b = readTileV1_index_record[where ps=128 and x=1 and y=0 and z=1 and dir="''d''"
      and fs=cache_v1 and ibs=example_bundlx, OF _ _ _ refl refl refl refl _ refl refl]
  show ?thesis
    using a b
    by (simp add: getBundleInfo_0_0 getBundleInfo_1_0 cache_v1_files example_bundlx_slot0
          example_bundlx_slot128)
qed

section \<open>The paths through \<^verbatim>\<open>readTileV2\<close>\<close>

lemma readTileV2_no_file:
  assumes "ps = (case p of None \<Rightarrow> 128 | Some q \<Rightarrow> q)"
    and "info = getBundleInfo col row level (Some ps)"
    and "bundle = path_join [dir, L info, R info @ C info @ ''.bundle'']"
    and "fs bundle = None"
  shows "readTileV2 fs dir col row level p =
           (Inr None,
            [ConsoleLog ''readTileV2:'', EvOpenFailed bundle,
             ConsoleWarn (V2_BundleFileNotFound bundle)])"
  using assms(4) unfolding assms(1,2,3)
  by (simp add: readTileV2_def Let_def fs_open_def)

lemma readTileV2_unreadable:
  assumes "ps = (case p of None \<Rightarrow> 128 | Some q \<Rightarrow> q)"
    and "info = getBundleInfo col row level (Some ps)"
    and "bundle = path_join [dir, L info, R info @ C info @ ''.bundle'']"
    and "fs bundle = Some Unreadable"
  shows "readTileV2 fs dir col row level p =
           (Inl (EIO bundle),
            [ConsoleLog ''readTileV2:'', EvOpen bundle, EvRead bundle 0 64, EvClose bundle])"
  using assms(4) unfolding assms(1,2,3)
  by (simp add: readTileV2_def readTileV2_try_def Let_def fs_open_def fd_read_Unreadable
        HEADER_SIZE_def)

lemma readTileV2_bad_version:
  assumes "ps = (case p of None \<Rightarrow> 128 | Some q \<Rightarrow> q)"
    and "info = getBundleInfo col row level (Some ps)"
    and "bundle = path_join [dir, L info, R info @ C info @ ''.bundle'']"
    and "fs bundle = Some (File bs)"
    and "u32_at bs 0 \<noteq> 3"
  shows "readTileV2 fs dir col row level p =
           (Inr None,
            [ConsoleLog ''readTileV2:'', EvOpen bundle, EvRead bundle 0 64,
             ConsoleWarn (V2_UnsupportedVersion (int (u32_at bs 0)) bundle), EvClose bundle])"
  using assms(4,5) unfolding assms(1,2,3)
  by (simp add: readTileV2_def readTileV2_try_def Let_def fs_open_def fd_read_fresh
        HEADER_SIZE_def readUInt32LE_read_at)

lemma readTileV2_absent:
  assumes "ps = (case p of None \<Rightarrow> 128 | Some q \<Rightarrow> q)"
    and "info = getBundleInfo col row level (Some ps)"
    and "bundle = path_join [dir, L info, R info @ C info @ ''.bundle'']"
    and "slotIndex = ps * (row - rGroup info) + (col - cGroup info)"
    and "fs bundle = Some (File bs)"
    and "u32_at bs 0 = 3"
    and "i32_at bs (nat (64 + 8 * slotIndex)) = 0"
  shows "readTileV2 fs dir col row level p =
           (Inr None,
            [ConsoleLog ''readTileV2:'', EvOpen bundle, EvRead bundle 0 64,
             EvRead bundle (64 + 8 * slotIndex) 4, ConsoleWarn (V2_TileNotFound col row),
             EvClose bundle])"
  using assms(5,6,7) unfolding assms(1,2,3,4)
  by (simp add: readTileV2_def readTileV2_try_def Let_def fs_open_def fd_read_fresh
        HEADER_SIZE_def RECORD_SIZE_def readUInt32LE_read_at readInt32LE_read_at)

lemma readTileV2_bad_size:
  assumes "ps = (case p of None \<Rightarrow> 128 | Some q \<Rightarrow> q)"
    and "info = getBundleInfo col row level (Some ps)"
    and "bundle = path_join [dir, L info, R info @ C info @ ''.bundle'']"
    and "slotIndex = ps * (row - rGroup info) + (col - cGroup info)"
    and "fs bundle = Some (File bs)"
    and "u32_at bs 0 = 3"
    and "0 \<le> slotIndex"
    and "dataOffset = i32_at bs (nat (64 + 8 * slotIndex))"
    and "4 \<le> dataOffset"
    and "tileSize = i32_at bs (nat (dataOffset - 4))"
    and "tileSize \<le> 0"
  shows "readTileV2 fs dir col row level p =
           (Inr None,
            [ConsoleLog ''readTileV2:'', EvOpen bundle, EvRead bundle 0 64,
             EvRead bundle (64 + 8 * slotIndex) 4, EvRead bundle (dataOffset - 4) 4,
             ConsoleWarn (V2_InvalidTileSize col row tileSize), EvClose bundle])"
  using assms(5,6,7,9,11) unfolding assms(1,2,3,4,8,10)
  by (simp add: readTileV2_def readTileV2_try_def Let_def fs_open_def fd_read_fresh
        fd_read_File HEADER_SIZE_def RECORD_SIZE_def readUInt32LE_read_at readInt32LE_read_at)

lemma readTileV2_tile:
  assumes "ps = (case p of None \<Rightarrow> 128 | Some q \<Rightarrow> q)"
    and "info = getBundleInfo col row level (Some ps)"
    and "bundle = path_join [dir, L info, R info @ C info @ ''.bundle'']"
    and "slotIndex = ps * (row - rGroup info) + (col - cGroup info)"
    and "fs bundle = Some (File bs)"
    and "u32_at bs 0 = 3"
    and "0 \<le> slotIndex"
    and "dataOffset = i32_at bs (nat (64 + 8 * slotIndex))"
    and "4 \<le> dataOffset"
    and "tileSize = i32_at bs (nat (dataOffset - 4))"
    and "0 < tileSize"
  shows "readTileV2 fs dir col row level p =
           (Inr (Some (read_at bs (nat dataOffset) (nat tileSize))),
            [ConsoleLog ''readTileV2:'', EvOpen bundle, EvRead bundle 0 64,
             EvRead bundle (64 + 8 * slotIndex) 4, EvRead bundle (dataOffset - 4) 4,
             EvRead bundle dataOffset (nat tileSize), EvClose bundle])"
  using assms(5,6,7,9,11) unfolding assms(1,2,3,4,8,10)
  by (simp add: readTileV2_def readTileV2_try_def Let_def fs_open_def fd_read_fresh
        fd_read_File HEADER_SIZE_def RECORD_SIZE_def readUInt32LE_read_at readInt32LE_read_at)

lemma fd_read_File_total:
  "fh_node fh = File bs \<Longrightarrow>
   \<exists>buf fh'. fd_read fh buffer n position = Inr (buf, fh') \<and> fh_node fh' = File bs"
  by (simp add: fd_read_def Let_def)

lemma readTileV2_present_prefix:
  assumes "ps = (case p of None \<Rightarrow> 128 | Some q \<Rightarrow> q)"
    and "info = getBundleInfo col row level (Some ps)"
    and "bundle = path_join [dir, L info, R info @ C info @ ''.bundle'']"
    and "slotIndex = ps * (row - rGroup info) + (col - cGroup info)"
    and "fs bundle = Some (File bs)"
    and "u32_at bs 0 = 3"
    and "dataOffset = i32_at bs (nat (64 + 8 * slotIndex))"
    and "dataOffset \<noteq> 0"
  shows "take 5 (snd (readTileV2 fs dir col row level p)) =
            [ConsoleLog ''readTileV2:'', EvOpen bundle, EvRead bundle 0 64,
             EvRead bundle (64 + 8 * slotIndex) 4, EvRead bundle (dataOffset - 4) 4]"
  using assms(5,6,8) unfolding assms(1,2,3,4,7)
  by (simp add: readTileV2_def readTileV2_try_def Let_def fs_open_def fd_read_fresh
        HEADER_SIZE_def RECORD_SIZE_def readUInt32LE_read_at readInt32LE_read_at
        split: sum.splits prod.splits)

section \<open>The V2 inline record\<close>

text \<open>
  C2. For a tile address of non-negative numbers and a positive packet size, on a bundle
  of version 3, the V2 decoder reads 4 bytes of the \<open>.bundle\<close> file at byte offset
  \<open>64 + 8 * slotIndex\<close>, where
  \<open>slotIndex = packetSize * (row - rowGroup) + (column - colGroup)\<close>, row-major, with
  \<open>rowGroup = floor(row / packetSize) * packetSize\<close> and
  \<open>colGroup = floor(column / packetSize) * packetSize\<close>; the slot index lies in the table
  of \<open>packetSize * packetSize\<close> records. The little-endian signed 32-bit value of those 4
  bytes is the data offset: when it is zero the call ends with the tile absent, and
  otherwise the next read is at the data offset minus 4.
\<close>

theorem readTileV2_inline_record:
  assumes "0 < ps" and "0 \<le> col" and "0 \<le> row"
    and "rowGroup = \<lfloor>real_of_int row / real_of_int ps\<rfloor> * ps"
    and "colGroup = \<lfloor>real_of_int col / real_of_int ps\<rfloor> * ps"
    and "slotIndex = ps * (row - rowGroup) + (col - colGroup)"
    and "info = getBundleInfo col row level (Some ps)"
    and "bundle = path_join [dir, L info, R info @ C info @ ''.bundle'']"
    and "fs bundle = Some (File bs)"
    and "u32_at bs 0 = 3"
    and "dataOffset = i32_at bs (nat (64 + 8 * slotIndex))"
    and "r = readTileV2 fs dir col row level (Some ps)"
  shows "0 \<le> slotIndex \<and> slotIndex < ps * ps
       \<and> take 4 (snd r) =
            [ConsoleLog ''readTileV2:'', EvOpen bundle, EvRead bundle 0 64,
             EvRead bundle (64 + 8 * slotIndex) 4]
       \<and> (dataOffset = 0 \<longrightarrow>
            r = (Inr None,
                 [ConsoleLog ''readTileV2:'', EvOpen bundle, EvRead bundle 0 64,
                  EvRead bundle (64 + 8 * slotIndex) 4, ConsoleWarn (V2_TileNotFound col row),
                  EvClose bundle]))
       \<and> (dataOffset \<noteq> 0 \<longrightarrow>
            take 5 (snd r) =
              [ConsoleLog ''readTileV2:'', EvOpen bundle, EvRead bundle 0 64,
               EvRead bundle (64 + 8 * slotIndex) 4, EvRead bundle (dataOffset - 4) 4])"
proof -
  have rg: "rGroup info = rowGroup" and cg: "cGroup info = colGroup"
    by (simp_all add: assms(4,5,7) rGroup_getBundleInfo cGroup_getBundleInfo
          floor_divide_of_int_eq)
  have rm: "row - rowGroup = row mod ps" and cm: "col - colGroup = col mod ps"
    by (simp_all add: assms(4,5) floor_divide_of_int_eq minus_div_mult_eq_mod)
  have r0: "0 \<le> row mod ps" "row mod ps < ps" and c0: "0 \<le> col mod ps" "col mod ps < ps"
    using assms(1) by simp_all
  have si: "slotIndex = ps * (row mod ps) + col mod ps" by (simp add: assms(6) rm cm)
  have lo: "0 \<le> slotIndex" using assms(1) r0 c0 by (simp add: si)
  have "ps * (row mod ps) \<le> ps * (ps - 1)"
    using assms(1) r0 by (intro mult_left_mono) simp_all
  then have hi: "slotIndex < ps * ps" using c0 by (simp add: si algebra_simps)
  have ps: "ps = (case Some ps of None \<Rightarrow> 128 | Some q \<Rightarrow> q)" by simp
  have slot: "slotIndex = ps * (row - rGroup info) + (col - cGroup info)"
    by (simp add: assms(6) rg cg)
  have zero: "r = (Inr None,
                 [ConsoleLog ''readTileV2:'', EvOpen bundle, EvRead bundle 0 64,
                  EvRead bundle (64 + 8 * slotIndex) 4, ConsoleWarn (V2_TileNotFound col row),
                  EvClose bundle])" if "dataOffset = 0"
    unfolding assms(12)
    using readTileV2_absent[where fs=fs and p="Some ps" and dir=dir,
        OF ps assms(7,8) slot assms(9,10)] that assms(11) by simp
  have nonzero: "take 5 (snd r) =
              [ConsoleLog ''readTileV2:'', EvOpen bundle, EvRead bundle 0 64,
               EvRead bundle (64 + 8 * slotIndex) 4, EvRead bundle (dataOffset - 4) 4]"
    if "dataOffset \<noteq> 0"
    unfolding assms(12)
    using readTileV2_present_prefix[where fs=fs and p="Some ps" and dir=dir,
        OF ps assms(7,8) slot assms(9,10,11) that] .
  have four: "take 4 (snd r) =
            [ConsoleLog ''readTileV2:'', EvOpen bundle, EvRead bundle 0 64,
             EvRead bundle (64 + 8 * slotIndex) 4]"
  proof (cases "dataOffset = 0")
    case True
    then show ?thesis using zero by simp
  next
    case False
    have "take 4 (snd r) = take 4 (take 5 (snd r))" by simp
    then show ?thesis unfolding nonzero[OF False] by simp
  qed
  show ?thesis using lo hi four zero nonzero by simp
qed

text \<open>The example V2 cache: its slots, and the addresses of row 0 and of (row 1, column 0).\<close>

lemma cache_v2_file: "cache_v2 ''d/L01/R0000C0000.bundle'' = Some (File example_bundle_v2)"
  by (simp add: cache_v2_def)

lemma example_bundle_v2_version: "u32_at example_bundle_v2 0 = 3"
  by (simp add: u32_at_def byte_at_def example_bundle_v2_def nth_append)

lemma example_bundle_v2_slots:
  "i32_at example_bundle_v2 64 = 108"
  "i32_at example_bundle_v2 72 = 0"
  "i32_at example_bundle_v2 80 = 118"
  "i32_at example_bundle_v2 88 = - 4"
  "i32_at example_bundle_v2 96 = 114"
  "i32_at example_bundle_v2 1088 = 0"
  by (simp_all add: i32_at_def int32_of_def u32_at_def byte_at_def example_bundle_v2_def
        nth_append)

lemma getBundleInfo_v2_row0:
  "getBundleInfo 0 0 1 (Some 128) = \<lparr>L = ''L01'', R = ''R0000'', C = ''C0000'', rGroup = 0, cGroup = 0\<rparr>"
  "getBundleInfo 1 0 1 (Some 128) = \<lparr>L = ''L01'', R = ''R0000'', C = ''C0000'', rGroup = 0, cGroup = 0\<rparr>"
  "getBundleInfo 2 0 1 (Some 128) = \<lparr>L = ''L01'', R = ''R0000'', C = ''C0000'', rGroup = 0, cGroup = 0\<rparr>"
  "getBundleInfo 3 0 1 (Some 128) = \<lparr>L = ''L01'', R = ''R0000'', C = ''C0000'', rGroup = 0, cGroup = 0\<rparr>"
  "getBundleInfo 4 0 1 (Some 128) = \<lparr>L = ''L01'', R = ''R0000'', C = ''C0000'', rGroup = 0, cGroup = 0\<rparr>"
  "getBundleInfo 0 1 1 (Some 128) = \<lparr>L = ''L01'', R = ''R0000'', C = ''C0000'', rGroup = 0, cGroup = 0\<rparr>"
  by code_simp+

theorem readTileV2_inline_record_witness:
  "take 5 (snd (readTileV2 cache_v2 ''d'' 0 0 1 (Some 128))) =
     [ConsoleLog ''readTileV2:'', EvOpen ''d/L01/R0000C0000.bundle'',
      EvRead ''d/L01/R0000C0000.bundle'' 0 64, EvRead ''d/L01/R0000C0000.bundle'' 64 4,
      EvRead ''d/L01/R0000C0000.bundle'' 104 4]
   \<and> take 5 (snd (readTileV2 cache_v2 ''d'' 3 0 1 (Some 128))) =
     [ConsoleLog ''readTileV2:'', EvOpen ''d/L01/R0000C0000.bundle'',
      EvRead ''d/L01/R0000C0000.bundle'' 0 64, EvRead ''d/L01/R0000C0000.bundle'' 88 4,
      EvRead ''d/L01/R0000C0000.bundle'' (- 8) 4]
   \<and> readTileV2 cache_v2 ''d'' 0 1 1 (Some 128) =
     (Inr None,
      [ConsoleLog ''readTileV2:'', EvOpen ''d/L01/R0000C0000.bundle'',
       EvRead ''d/L01/R0000C0000.bundle'' 0 64, EvRead ''d/L01/R0000C0000.bundle'' 1088 4,
       ConsoleWarn (V2_TileNotFound 0 1), EvClose ''d/L01/R0000C0000.bundle''])"
proof -
  note a = readTileV2_inline_record[where ps=128 and col=0 and row=0 and level=1 and dir="''d''"
      and fs=cache_v2 and bs=example_bundle_v2,
      OF _ _ _ refl refl refl refl refl _ example_bundle_v2_version refl refl]
  note b = readTileV2_inline_record[where ps=128 and col=3 and row=0 and level=1 and dir="''d''"
      and fs=cache_v2 and bs=example_bundle_v2,
      OF _ _ _ refl refl refl refl refl _ example_bundle_v2_version refl refl]
  note c = readTileV2_inline_record[where ps=128 and col=0 and row=1 and level=1 and dir="''d''"
      and fs=cache_v2 and bs=example_bundle_v2,
      OF _ _ _ refl refl refl refl refl _ example_bundle_v2_version refl refl]
  show ?thesis
    using a b c
    by (simp add: getBundleInfo_v2_row0 cache_v2_file example_bundle_v2_slots)
qed

section \<open>Zero records\<close>

text \<open>
  C8. When the record of a tile is zero at the offset the decoder computes (V1: the
  5-byte value in the \<open>.bundlx\<close> file; V2: the signed 4-byte value in the \<open>.bundle\<close>
  file), the decoder returns the absent result \<^verbatim>\<open>null\<close> and no error, and the V1 decoder
  causes no event on the \<open>.bundle\<close> data file: it neither opens it nor tries to. The
  V1 call is on the cache \<open>fs1\<close> at column \<open>x\<close>, row \<open>y\<close>, level \<open>z\<close>; the V2 call on the
  cache \<open>fs2\<close> at \<open>col\<close>, \<open>row\<close>, \<open>level\<close>.
\<close>

theorem zero_record_is_absent:
  assumes "ps = (case p of None \<Rightarrow> 128 | Some q \<Rightarrow> q)"
    and "info1 = getBundleInfo x y z None"
    and "bundlx = path_join [dir, L info1, R info1 @ C info1 @ ''.bundlx'']"
    and "bundle1 = path_join [dir, L info1, R info1 @ C info1 @ ''.bundle'']"
    and "slot1 = ps * (x - cGroup info1) + (y - rGroup info1)"
    and "fs1 bundlx = Some (File ibs)"
    and "u40_at ibs (nat (16 + 5 * slot1)) = 0"
    and "info2 = getBundleInfo col row level (Some ps)"
    and "bundle2 = path_join [dir, L info2, R info2 @ C info2 @ ''.bundle'']"
    and "slot2 = ps * (row - rGroup info2) + (col - cGroup info2)"
    and "fs2 bundle2 = Some (File bs)"
    and "i32_at bs (nat (64 + 8 * slot2)) = 0"
  shows "fst (readTileV1 fs1 dir z x y p) = Inr None
       \<and> events_on bundle1 (snd (readTileV1 fs1 dir z x y p)) = []
       \<and> fst (readTileV2 fs2 dir col row level p) = Inr None"
proof -
  have ne: "bundlx \<noteq> bundle1" unfolding assms(3,4) using bundle_neq_bundlx' by metis
  have v1: "readTileV1 fs1 dir z x y p =
           (Inr None, [EvOpen bundlx, EvRead bundlx (16 + 5 * slot1) 5, EvClose bundlx,
                       ConsoleWarn (V1_TileNotInBundle z x y)])"
    using readTileV1_absent[where fs=fs1 and p=p and dir=dir, OF assms(2,3,1,5,6)] assms(7)
    by (simp add: readUIntLE_read_at)
  have v2: "fst (readTileV2 fs2 dir col row level p) = Inr None"
  proof (cases "u32_at bs 0 = 3")
    case True
    show ?thesis
      using readTileV2_absent[where fs=fs2 and p=p and dir=dir,
          OF assms(1,8,9,10,11) True assms(12)] by simp
  next
    case False
    show ?thesis
      using readTileV2_bad_version[where fs=fs2 and p=p and dir=dir,
          OF assms(1,8,9,11) False] by simp
  qed
  show ?thesis using v1 v2 ne by (simp add: events_on_def)
qed

text \<open>The example caches at column 0, row 2.\<close>

lemma example_bundlx_slot2: "u40_at example_bundlx 26 = 0"
  by (simp add: u40_at_def byte_at_def example_bundlx_def nth_append)

lemma getBundleInfo_0_2:
  "getBundleInfo 0 2 1 None = \<lparr>L = ''L01'', R = ''R0000'', C = ''C0000'', rGroup = 0, cGroup = 0\<rparr>"
  "getBundleInfo 0 2 1 (Some 128) = \<lparr>L = ''L01'', R = ''R0000'', C = ''C0000'', rGroup = 0, cGroup = 0\<rparr>"
  by code_simp+

lemma example_bundle_v2_slot256: "i32_at example_bundle_v2 2112 = 0"
  by (simp add: i32_at_def int32_of_def u32_at_def byte_at_def example_bundle_v2_def)

theorem zero_record_is_absent_witness:
  "fst (readTileV1 cache_v1 ''d'' 1 0 2 None) = Inr None
   \<and> events_on ''d/L01/R0000C0000.bundle'' (snd (readTileV1 cache_v1 ''d'' 1 0 2 None)) = []
   \<and> fst (readTileV2 cache_v2 ''d'' 0 2 1 None) = Inr None"
  using zero_record_is_absent[where p=None and ps=128 and x=0 and y=2 and z=1 and dir="''d''"
      and col=0 and row=2 and level=1
      and ?fs1.0=cache_v1 and ibs=example_bundlx and ?fs2.0=cache_v2 and bs=example_bundle_v2,
      OF _ refl refl refl refl _ _ refl refl refl]
  by (simp add: getBundleInfo_0_2 cache_v1_files cache_v2_file example_bundlx_slot2
        example_bundle_v2_slot256)

section \<open>Length validation\<close>

text \<open>
  C6. The two decoders validate the 4-byte signed length differently. V1 (on the cache
  \<open>fs1\<close>, with a non-zero index record \<open>offset\<close> and the length \<open>len\<close> read at that offset
  of the data file): a length \<open>\<le> 0\<close> or \<open>> 1,000,000\<close> gives the absent result \<^verbatim>\<open>null\<close>,
  no error, with the warning \<^verbatim>\<open>console.warn\<close> of the invalid length; a length in between
  gives the \<open>len\<close> bytes after the length field. V2 (on the cache \<open>fs2\<close>, version 3, with a
  data offset of at least 4 and the length \<open>tileSize\<close> read 4 bytes before it): only a
  length \<open>\<le> 0\<close> gives \<^verbatim>\<open>null\<close>; every positive length, however large, gives a buffer of
  exactly \<open>tileSize\<close> bytes read at the data offset. The witness has the length
  1,000,001 in both formats.
\<close>

theorem length_validation_asymmetric:
  assumes "ps = (case p of None \<Rightarrow> 128 | Some q \<Rightarrow> q)"
    and "info1 = getBundleInfo x y z None"
    and "bundlx = path_join [dir, L info1, R info1 @ C info1 @ ''.bundlx'']"
    and "bundle1 = path_join [dir, L info1, R info1 @ C info1 @ ''.bundle'']"
    and "slot1 = ps * (x - cGroup info1) + (y - rGroup info1)"
    and "fs1 bundlx = Some (File ibs)"
    and "offset = u40_at ibs (nat (16 + 5 * slot1))"
    and "offset \<noteq> 0"
    and "fs1 bundle1 = Some (File dbs)"
    and "len = i32_at dbs offset"
    and "info2 = getBundleInfo col row level (Some ps)"
    and "bundle2 = path_join [dir, L info2, R info2 @ C info2 @ ''.bundle'']"
    and "slot2 = ps * (row - rGroup info2) + (col - cGroup info2)"
    and "0 \<le> slot2"
    and "fs2 bundle2 = Some (File bs)"
    and "u32_at bs 0 = 3"
    and "dataOffset = i32_at bs (nat (64 + 8 * slot2))"
    and "4 \<le> dataOffset"
    and "tileSize = i32_at bs (nat (dataOffset - 4))"
  shows "(len \<le> 0 \<or> 1000000 < len \<longrightarrow>
            fst (readTileV1 fs1 dir z x y p) = Inr None
          \<and> ConsoleWarn (V1_InvalidLength len) \<in> set (snd (readTileV1 fs1 dir z x y p)))
       \<and> (0 < len \<and> len \<le> 1000000 \<longrightarrow>
            fst (readTileV1 fs1 dir z x y p) = Inr (Some (read_at dbs (offset + 4) (nat len))))
       \<and> (tileSize \<le> 0 \<longrightarrow> fst (readTileV2 fs2 dir col row level p) = Inr None)
       \<and> (0 < tileSize \<longrightarrow>
            fst (readTileV2 fs2 dir col row level p) =
              Inr (Some (read_at bs (nat dataOffset) (nat tileSize)))
          \<and> int (length (read_at bs (nat dataOffset) (nat tileSize))) = tileSize)"
proof -
  have off: "int offset = readUIntLE (read_at ibs (nat (16 + 5 * slot1)) 5) 0 5"
    by (simp add: assms(7) readUIntLE_read_at)
  have nz: "int offset \<noteq> 0" using assms(8) by simp
  have len: "len = readInt32LE (read_at dbs (nat (int offset)) 4) 0"
    by (simp add: assms(10) readInt32LE_read_at)
  note v1 = assms(2,3,4,1,5,6) off nz assms(9) len
  have bad: "readTileV1 fs1 dir z x y p =
           (Inr None,
            [EvOpen bundlx, EvRead bundlx (16 + 5 * slot1) 5, EvClose bundlx,
             EvOpen bundle1, EvRead bundle1 (int offset) 4, ConsoleWarn (V1_InvalidLength len),
             EvClose bundle1])" if "len \<le> 0 \<or> 1000000 < len"
    using readTileV1_bad_length[where fs=fs1 and p=p and dir=dir, OF v1 that] .
  have good: "fst (readTileV1 fs1 dir z x y p) = Inr (Some (read_at dbs (offset + 4) (nat len)))"
    if "0 < len" "len \<le> 1000000"
    using readTileV1_tile[where fs=fs1 and p=p and dir=dir, OF v1 that]
    by (simp add: nat_add_distrib)
  note v2 = assms(1,11,12,13,15,16,14,17,18,19)
  have small: "fst (readTileV2 fs2 dir col row level p) = Inr None" if "tileSize \<le> 0"
    using readTileV2_bad_size[where fs=fs2 and p=p and dir=dir, OF v2 that] by simp
  have any: "fst (readTileV2 fs2 dir col row level p) =
               Inr (Some (read_at bs (nat dataOffset) (nat tileSize)))" if "0 < tileSize"
    using readTileV2_tile[where fs=fs2 and p=p and dir=dir, OF v2 that] by simp
  have l: "int (length (read_at bs (nat dataOffset) (nat tileSize))) = tileSize"
    if "0 < tileSize" using that by (simp add: length_read_at)
  show ?thesis using bad good small any l by simp
qed


text \<open>A read that the file covers returns the bytes of the file.\<close>

lemma read_at_within: "pos + n \<le> length bs \<Longrightarrow> read_at bs pos n = take n (drop pos bs)"
  by (simp add: read_at_def buffer_write_def Buffer_alloc_def)

text \<open>The example caches at the tiles with the lengths 3, 1,000,001 and 0.\<close>

lemma example_v1_values:
  "u40_at example_bundlx 21 = 11"
  "i32_at example_bundle_v1 11 = 1000001"
  "i32_at example_bundle_v1 4 = 3"
  "read_at example_bundle_v1 8 3 = [7, 8, 9]"
  by (simp_all add: u40_at_def i32_at_def int32_of_def u32_at_def byte_at_def example_bundlx_def
        example_bundle_v1_def nth_append read_at_def buffer_write_def Buffer_alloc_def)

lemma example_v2_values:
  "i32_at example_bundle_v2 114 = 1000001"
  "i32_at example_bundle_v2 110 = 0"
  by (simp_all add: i32_at_def int32_of_def u32_at_def byte_at_def example_bundle_v2_def
        nth_append)

lemma getBundleInfo_0_1:
  "getBundleInfo 0 1 1 None = \<lparr>L = ''L01'', R = ''R0000'', C = ''C0000'', rGroup = 0, cGroup = 0\<rparr>"
  by code_simp

theorem length_validation_asymmetric_witness:
  "fst (readTileV1 cache_v1 ''d'' 1 0 1 None) = Inr None
   \<and> ConsoleWarn (V1_InvalidLength 1000001) \<in> set (snd (readTileV1 cache_v1 ''d'' 1 0 1 None))
   \<and> fst (readTileV2 cache_v2 ''d'' 2 0 1 None) =
       Inr (Some (read_at example_bundle_v2 118 1000001))
   \<and> length (read_at example_bundle_v2 118 1000001) = 1000001
   \<and> fst (readTileV1 cache_v1 ''d'' 1 0 0 None) = Inr (Some [7, 8, 9])
   \<and> fst (readTileV2 cache_v2 ''d'' 4 0 1 None) = Inr None"
proof -
  note a = length_validation_asymmetric[where p=None and ps=128 and dir="''d''"
      and x=0 and y=1 and z=1 and ?fs1.0=cache_v1 and ibs=example_bundlx
      and dbs=example_bundle_v1
      and col=2 and row=0 and level=1 and ?fs2.0=cache_v2 and bs=example_bundle_v2,
      OF _ refl refl refl refl _ refl _ _ refl refl refl refl _ _ example_bundle_v2_version
         refl _ refl]
  note b = length_validation_asymmetric[where p=None and ps=128 and dir="''d''"
      and x=0 and y=0 and z=1 and ?fs1.0=cache_v1 and ibs=example_bundlx
      and dbs=example_bundle_v1
      and col=4 and row=0 and level=1 and ?fs2.0=cache_v2 and bs=example_bundle_v2,
      OF _ refl refl refl refl _ refl _ _ refl refl refl refl _ _ example_bundle_v2_version
         refl _ refl]
  show ?thesis
    using a b
    by (simp add: getBundleInfo_0_0 getBundleInfo_0_1 getBundleInfo_v2_row0 cache_v1_files
          cache_v2_file example_bundlx_slot0 example_v1_values example_bundle_v2_slots
          example_v2_values)
qed

section \<open>The tile route\<close>

text \<open>
  C10. When the level, the row or the column of a tile request parses to \<open>0\<close> or to
  \<open>NaN\<close>, the route answers 400 \<open>Missing parameters\<close> and causes no event: no file is
  opened or looked for, no decoder runs. This holds for every cache and every
  configuration, so a tile of row 0, column 0 or level 0 is not served even where the
  cache holds it (the witness: the decoder finds the tile of row 0, column 0 that the
  route refuses).
\<close>

theorem tile_route_falsy_parameter:
  assumes "level_param = None \<or> level_param = Some 0 \<or> row_param = None \<or> row_param = Some 0
         \<or> col_param = None \<or> col_param = Some 0"
  shows "tile_route rootDir getConfXml fs mapName level_param row_param col_param =
           (SendStatus 400 ''Missing parameters'', [])"
  using assms by (auto simp: tile_route_def split: option.splits)

text \<open>The tile of row 0, column 0 in the example V2 bundle, served as map \<open>m\<close>.\<close>

lemma example_tile_v2: "i32_at example_bundle_v2 104 = 2" "read_at example_bundle_v2 108 2 = [9, 8]"
  by (simp_all add: i32_at_def int32_of_def u32_at_def byte_at_def example_bundle_v2_def
        nth_append read_at_def buffer_write_def Buffer_alloc_def)

lemma cache_route_file:
  "cache_route ''image_tiles/m/_alllayers/L01/R0000C0000.bundle'' = Some (File example_bundle_v2)"
  by (simp add: cache_route_def)

lemma cache_route_tile_0_0:
  "fst (readTileV2 cache_route ''image_tiles/m/_alllayers'' 0 0 1 (Some 128)) = Inr (Some [9, 8])"
  using readTileV2_tile[where p="Some 128" and ps=128 and dir="''image_tiles/m/_alllayers''"
      and col=0 and row=0 and level=1 and fs=cache_route and bs=example_bundle_v2,
      OF _ refl refl refl _ example_bundle_v2_version _ refl _ refl]
  by (simp add: getBundleInfo_v2_row0 cache_route_file example_bundle_v2_slots example_tile_v2)

theorem tile_route_falsy_parameter_witness:
  "fst (readTileV2 cache_route ''image_tiles/m/_alllayers'' 0 0 1 (Some 128)) = Inr (Some [9, 8])
   \<and> tile_route ''image_tiles'' (conf_of V2) cache_route ''m'' (Some 1) (Some 0) (Some 0) =
       (SendStatus 400 ''Missing parameters'', [])
   \<and> tile_route ''image_tiles'' (conf_of V2) cache_route ''m'' (Some 0) (Some 5) (Some 7) =
       (SendStatus 400 ''Missing parameters'', [])
   \<and> tile_route ''image_tiles'' (conf_of V2) cache_route ''m'' None (Some 5) (Some 7) =
       (SendStatus 400 ''Missing parameters'', [])"
  using tile_route_falsy_parameter[of "Some 1" "Some 0" "Some 0" "''image_tiles''" "conf_of V2"
      cache_route "''m''"]
    tile_route_falsy_parameter[of "Some 0" "Some 5" "Some 7" "''image_tiles''" "conf_of V2"
      cache_route "''m''"]
    tile_route_falsy_parameter[of None "Some 5" "Some 7" "''image_tiles''" "conf_of V2"
      cache_route "''m''"]
    cache_route_tile_0_0
  by simp

text \<open>
  C5, as the code has it. For a request with usable parameters whose map has the format
  tag \<open>unknown\<close> (neither \<open>v1\<close>, \<open>v2\<close> nor \<open>loose\<close>), the route runs no decoder and
  answers 404 \<open>Tile not found or empty.\<close>: the response it gives when a decoder reports
  an absent tile (shown for a V2 map whose decoder returns \<^verbatim>\<open>null\<close>). There is no
  separate "unsupported format" error.
\<close>

theorem tile_route_unknown_format:
  assumes "mapName \<noteq> []" and "level \<noteq> 0" and "row \<noteq> 0" and "col \<noteq> 0"
    and "getConfXml mapName = Some conf" and "tileType conf = Unknown"
    and "getConfXml' mapName = Some conf'" and "tileType conf' = V2"
    and "readTileV2 fs (getAllLayersDir rootDir mapName) col row level (Some (packetSize conf'))
           = (Inr None, t)"
  shows "tile_route rootDir getConfXml fs mapName (Some level) (Some row) (Some col) =
           (SendStatus 404 ''Tile not found or empty.'', [])
       \<and> tile_route rootDir getConfXml' fs mapName (Some level) (Some row) (Some col) =
           (SendStatus 404 ''Tile not found or empty.'', t)"
  using assms by (simp add: tile_route_def)

lemma getBundleInfo_1_1:
  "getBundleInfo 1 1 1 None = \<lparr>L = ''L01'', R = ''R0000'', C = ''C0000'', rGroup = 0, cGroup = 0\<rparr>"
  "getBundleInfo 1 1 1 (Some 128) = \<lparr>L = ''L01'', R = ''R0000'', C = ''C0000'', rGroup = 0, cGroup = 0\<rparr>"
  by code_simp+

lemma readTileV2_no_files_1_1:
  "readTileV2 no_files ''image_tiles/m/_alllayers'' 1 1 1 (Some 128) =
     (Inr None,
      [ConsoleLog ''readTileV2:'', EvOpenFailed ''image_tiles/m/_alllayers/L01/R0000C0000.bundle'',
       ConsoleWarn (V2_BundleFileNotFound ''image_tiles/m/_alllayers/L01/R0000C0000.bundle'')])"
  using readTileV2_no_file[where p="Some 128" and ps=128 and dir="''image_tiles/m/_alllayers''"
      and col=1 and row=1 and level=1 and fs=no_files, OF _ refl refl]
  by (simp add: getBundleInfo_1_1 no_files_def)

theorem tile_route_unknown_format_witness:
  "tile_route ''image_tiles'' (conf_of Unknown) no_files ''m'' (Some 1) (Some 1) (Some 1) =
     (SendStatus 404 ''Tile not found or empty.'', [])
   \<and> tile_route ''image_tiles'' (conf_of V2) no_files ''m'' (Some 1) (Some 1) (Some 1) =
     (SendStatus 404 ''Tile not found or empty.'',
      [ConsoleLog ''readTileV2:'', EvOpenFailed ''image_tiles/m/_alllayers/L01/R0000C0000.bundle'',
       ConsoleWarn (V2_BundleFileNotFound ''image_tiles/m/_alllayers/L01/R0000C0000.bundle'')])"
  using tile_route_unknown_format[where mapName="''m''" and level=1 and row=1 and col=1
      and getConfXml="conf_of Unknown" and getConfXml'="conf_of V2" and fs=no_files
      and rootDir="''image_tiles''"
      and conf="\<lparr> imageFormat = ''png'', tileType = Unknown, packetSize = 128 \<rparr>"
      and conf'="\<lparr> imageFormat = ''png'', tileType = V2, packetSize = 128 \<rparr>"]
    readTileV2_no_files_1_1
  by (simp add: conf_of_def getAllLayersDir_def)

text \<open>
  The unknown format and an absent tile (a V2 map whose bundle file is missing) get the
  same status and body, so the response does not tell them apart.
\<close>

theorem unknown_format_answers_like_absent_tile:
  "fst (tile_route ''image_tiles'' (conf_of Unknown) no_files ''m'' (Some 1) (Some 1) (Some 1)) =
     SendStatus 404 ''Tile not found or empty.''
   \<and> fst (tile_route ''image_tiles'' (conf_of V2) no_files ''m'' (Some 1) (Some 1) (Some 1)) =
     SendStatus 404 ''Tile not found or empty.''"
  using readTileV2_no_files_1_1
  by (simp add: tile_route_def conf_of_def getAllLayersDir_def)

section \<open>Where the code and its specification part\<close>

text \<open>Evaluations for the claims below.\<close>

lemma getBundleInfo_70_5:
  "getBundleInfo 70 5 1 None = \<lparr>L = ''L01'', R = ''R0000'', C = ''C0000'', rGroup = 0, cGroup = 0\<rparr>"
  "getBundleInfo 70 5 1 (Some 64) = \<lparr>L = ''L01'', R = ''R0000'', C = ''C0040'', rGroup = 0, cGroup = 64\<rparr>"
  by code_simp+

lemma example_bundlx_far: "u40_at example_bundlx 22441 = 0"
  by (simp add: u40_at_def byte_at_def example_bundlx_def)

lemma cache_v1_ps64_files:
  "cache_v1_ps64 ''d/L01/R0000C0000.bundlx'' = Some (File example_bundlx)"
  "cache_v1_ps64 ''d/L01/R0000C0040.bundlx'' = Some (File example_bundlx_c40)"
  "cache_v1_ps64 ''d/L01/R0000C0040.bundle'' = Some (File example_bundle_v1)"
  by (simp_all add: cache_v1_ps64_def)

lemma example_bundlx_c40_slot389: "u40_at example_bundlx_c40 1961 = 4"
  by (simp add: u40_at_def byte_at_def example_bundlx_c40_def nth_append)

text \<open>
  C1. The specification has the V1 decoder consult the index record at byte offset
  \<open>16 + 5 * slotIndex\<close> of the group's \<open>.bundlx\<close> file, with
  \<open>slotIndex = packetSize * (column - colGroup) + (row - rowGroup)\<close> and the groups of the
  packet size passed. At packet size 64, column 70, row 5, level 1 that is the record at
  byte offset 1961 of \<open>R0000C0040.bundlx\<close>, which in the example cache points to the
  tile \<open>7, 8, 9\<close>. \<^verbatim>\<open>readTileV1\<close> takes the groups of packet size 128 instead: it never
  touches that file, reads the 5 bytes at byte offset 22441 of \<open>R0000C0000.bundlx\<close>,
  finds zero there and reports the tile absent. (One defect with C3: the packet size is
  not passed to \<^verbatim>\<open>getBundleInfo\<close>.)
\<close>

theorem readTileV1_reads_other_record:
  "getBundleInfo 70 5 1 (Some 64) =
     \<lparr>L = ''L01'', R = ''R0000'', C = ''C0040'', rGroup = 0, cGroup = 64\<rparr>
   \<and> 16 + 5 * (64 * (70 - 64) + (5 - 0)) = (1961 :: int)
   \<and> cache_v1_ps64 ''d/L01/R0000C0040.bundlx'' = Some (File example_bundlx_c40)
   \<and> u40_at example_bundlx_c40 1961 = 4
   \<and> cache_v1_ps64 ''d/L01/R0000C0040.bundle'' = Some (File example_bundle_v1)
   \<and> i32_at example_bundle_v1 4 = 3
   \<and> read_at example_bundle_v1 8 3 = [7, 8, 9]
   \<and> readTileV1 cache_v1_ps64 ''d'' 1 70 5 (Some 64) =
     (Inr None,
      [EvOpen ''d/L01/R0000C0000.bundlx'', EvRead ''d/L01/R0000C0000.bundlx'' 22441 5,
       EvClose ''d/L01/R0000C0000.bundlx'', ConsoleWarn (V1_TileNotInBundle 1 70 5)])
   \<and> events_on ''d/L01/R0000C0040.bundlx'' (snd (readTileV1 cache_v1_ps64 ''d'' 1 70 5 (Some 64))) = []"
proof -
  have r: "readTileV1 cache_v1_ps64 ''d'' 1 70 5 (Some 64) =
     (Inr None,
      [EvOpen ''d/L01/R0000C0000.bundlx'', EvRead ''d/L01/R0000C0000.bundlx'' 22441 5,
       EvClose ''d/L01/R0000C0000.bundlx'', ConsoleWarn (V1_TileNotInBundle 1 70 5)])"
    using readTileV1_absent[where p="Some 64" and ps=64 and dir="''d''" and x=70 and y=5 and z=1
        and fs=cache_v1_ps64 and ibs=example_bundlx, OF refl refl _ refl]
    by (simp add: getBundleInfo_70_5 cache_v1_ps64_files readUIntLE_read_at example_bundlx_far)
  show ?thesis
    by (simp add: r getBundleInfo_70_5 cache_v1_ps64_files example_bundlx_c40_slot389
          example_v1_values events_on_def)
qed

text \<open>
  C3. The specification computes the V1 group coordinates and file stem from the packet
  size the caller passes. \<^verbatim>\<open>readTileV1\<close> calls \<^verbatim>\<open>getBundleInfo(x, y, z)\<close> without it, so
  the groups are those of packet size 128 whatever the argument. At packet size 64,
  column 70, row 5, level 1 the resolver gives column group 64 and the stem
  \<open>R0000C0040\<close> (slot \<open>64 * 6 + 5 = 389\<close>, byte offset 1961); the decoder opens
  \<open>R0000C0000.bundlx\<close> and reads slot \<open>64 * 70 + 5 = 4485\<close> at byte offset 22441.
\<close>

theorem readTileV1_groups_ignore_packetSize:
  "getBundleInfo 70 5 1 (Some 64) =
     \<lparr>L = ''L01'', R = ''R0000'', C = ''C0040'', rGroup = 0, cGroup = 64\<rparr>
   \<and> readTileV1 cache_v1 ''d'' 1 70 5 (Some 64) =
     (Inr None,
      [EvOpen ''d/L01/R0000C0000.bundlx'', EvRead ''d/L01/R0000C0000.bundlx'' 22441 5,
       EvClose ''d/L01/R0000C0000.bundlx'', ConsoleWarn (V1_TileNotInBundle 1 70 5)])"
  using readTileV1_absent[where p="Some 64" and ps=64 and dir="''d''" and x=70 and y=5 and z=1
      and fs=cache_v1 and ibs=example_bundlx, OF refl refl _ refl]
  by (simp add: getBundleInfo_70_5 cache_v1_files readUIntLE_read_at example_bundlx_far)

lemma readTileV1_no_files_1_1:
  "readTileV1 no_files ''image_tiles/m/_alllayers'' 1 1 1 None =
     (Inl (ENOENT ''image_tiles/m/_alllayers/L01/R0000C0000.bundlx''),
      [EvOpenFailed ''image_tiles/m/_alllayers/L01/R0000C0000.bundlx''])"
  using readTileV1_no_index[where p=None and dir="''image_tiles/m/_alllayers''"
      and x=1 and y=1 and z=1 and fs=no_files, OF refl refl]
  by (simp add: getBundleInfo_1_1 no_files_def)

text \<open>
  C4. The specification reports a missing index or data file of the V1 format as an
  absent tile. \<^verbatim>\<open>readTileV1\<close> opens both files outside any \<^verbatim>\<open>try\<close>: a missing file
  rejects its promise with \<open>ENOENT\<close>, and the route answers 500. \<^verbatim>\<open>readTileV2\<close> catches
  the same failure and returns \<^verbatim>\<open>null\<close>, which the route answers with 404.
\<close>

theorem readTileV1_missing_file_rejects:
  "readTileV1 no_files ''image_tiles/m/_alllayers'' 1 1 1 None =
     (Inl (ENOENT ''image_tiles/m/_alllayers/L01/R0000C0000.bundlx''),
      [EvOpenFailed ''image_tiles/m/_alllayers/L01/R0000C0000.bundlx''])
   \<and> readTileV1 cache_v1_no_data ''d'' 1 0 0 None =
     (Inl (ENOENT ''d/L01/R0000C0000.bundle''),
      [EvOpen ''d/L01/R0000C0000.bundlx'', EvRead ''d/L01/R0000C0000.bundlx'' 16 5,
       EvClose ''d/L01/R0000C0000.bundlx'', EvOpenFailed ''d/L01/R0000C0000.bundle''])
   \<and> fst (tile_route ''image_tiles'' (conf_of V1) no_files ''m'' (Some 1) (Some 1) (Some 1)) =
       SendStatus 500 ''Internal server error.''
   \<and> fst (readTileV2 no_files ''image_tiles/m/_alllayers'' 1 1 1 (Some 128)) = Inr None
   \<and> fst (tile_route ''image_tiles'' (conf_of V2) no_files ''m'' (Some 1) (Some 1) (Some 1)) =
       SendStatus 404 ''Tile not found or empty.''"
proof -
  have nd: "cache_v1_no_data ''d/L01/R0000C0000.bundlx'' = Some (File example_bundlx)"
           "cache_v1_no_data ''d/L01/R0000C0000.bundle'' = None"
    by (simp_all add: cache_v1_no_data_def)
  have b: "readTileV1 cache_v1_no_data ''d'' 1 0 0 None =
     (Inl (ENOENT ''d/L01/R0000C0000.bundle''),
      [EvOpen ''d/L01/R0000C0000.bundlx'', EvRead ''d/L01/R0000C0000.bundlx'' 16 5,
       EvClose ''d/L01/R0000C0000.bundlx'', EvOpenFailed ''d/L01/R0000C0000.bundle''])"
    using readTileV1_no_bundle[where p=None and ps=128 and dir="''d''" and x=0 and y=0 and z=1
        and fs=cache_v1_no_data and ibs=example_bundlx, OF refl refl refl _ refl]
    by (simp add: getBundleInfo_0_0 nd readUIntLE_read_at example_bundlx_slot0)
  show ?thesis
    using readTileV1_no_files_1_1 readTileV2_no_files_1_1 b
    by (simp add: tile_route_def conf_of_def getAllLayersDir_def)
qed

text \<open>
  C9. The specification releases every handle exactly once on every exit path.
  \<^verbatim>\<open>readTileV1\<close> closes its handles by hand after each read: when a read throws, the
  handle it was issued on (of the index, or of the data file) is never closed.
  \<^verbatim>\<open>readTileV2\<close> closes its handle in a \<^verbatim>\<open>finally\<close>, also when the read throws.
\<close>

theorem readTileV1_leaks_handle_on_failed_read:
  "readTileV1 cache_unreadable_index ''d'' 1 0 0 None =
     (Inl (EIO ''d/L01/R0000C0000.bundlx''),
      [EvOpen ''d/L01/R0000C0000.bundlx'', EvRead ''d/L01/R0000C0000.bundlx'' 16 5])
   \<and> readTileV1 cache_unreadable_data ''d'' 1 0 0 None =
     (Inl (EIO ''d/L01/R0000C0000.bundle''),
      [EvOpen ''d/L01/R0000C0000.bundlx'', EvRead ''d/L01/R0000C0000.bundlx'' 16 5,
       EvClose ''d/L01/R0000C0000.bundlx'', EvOpen ''d/L01/R0000C0000.bundle'',
       EvRead ''d/L01/R0000C0000.bundle'' 4 4])
   \<and> readTileV2 cache_unreadable_data ''d'' 0 0 1 None =
     (Inl (EIO ''d/L01/R0000C0000.bundle''),
      [ConsoleLog ''readTileV2:'', EvOpen ''d/L01/R0000C0000.bundle'',
       EvRead ''d/L01/R0000C0000.bundle'' 0 64, EvClose ''d/L01/R0000C0000.bundle''])"
proof -
  have ui: "cache_unreadable_index ''d/L01/R0000C0000.bundlx'' = Some Unreadable"
    by (simp add: cache_unreadable_index_def)
  have ud: "cache_unreadable_data ''d/L01/R0000C0000.bundlx'' = Some (File example_bundlx)"
           "cache_unreadable_data ''d/L01/R0000C0000.bundle'' = Some Unreadable"
    by (simp_all add: cache_unreadable_data_def)
  have a: "readTileV1 cache_unreadable_index ''d'' 1 0 0 None =
     (Inl (EIO ''d/L01/R0000C0000.bundlx''),
      [EvOpen ''d/L01/R0000C0000.bundlx'', EvRead ''d/L01/R0000C0000.bundlx'' 16 5])"
    using readTileV1_index_unreadable[where p=None and ps=128 and dir="''d''" and x=0 and y=0
        and z=1 and fs=cache_unreadable_index, OF refl refl _ refl]
    by (simp add: getBundleInfo_0_0 ui)
  have b: "readTileV1 cache_unreadable_data ''d'' 1 0 0 None =
     (Inl (EIO ''d/L01/R0000C0000.bundle''),
      [EvOpen ''d/L01/R0000C0000.bundlx'', EvRead ''d/L01/R0000C0000.bundlx'' 16 5,
       EvClose ''d/L01/R0000C0000.bundlx'', EvOpen ''d/L01/R0000C0000.bundle'',
       EvRead ''d/L01/R0000C0000.bundle'' 4 4])"
    using readTileV1_bundle_unreadable[where p=None and ps=128 and dir="''d''" and x=0 and y=0
        and z=1 and fs=cache_unreadable_data and ibs=example_bundlx,
        OF refl refl refl _ refl _ refl]
    by (simp add: getBundleInfo_0_0 ud readUIntLE_read_at example_bundlx_slot0)
  have c: "readTileV2 cache_unreadable_data ''d'' 0 0 1 None =
     (Inl (EIO ''d/L01/R0000C0000.bundle''),
      [ConsoleLog ''readTileV2:'', EvOpen ''d/L01/R0000C0000.bundle'',
       EvRead ''d/L01/R0000C0000.bundle'' 0 64, EvClose ''d/L01/R0000C0000.bundle''])"
    using readTileV2_unreadable[where p=None and ps=128 and dir="''d''" and col=0 and row=0
        and level=1 and fs=cache_unreadable_data, OF _ refl refl]
    by (simp add: getBundleInfo_v2_row0 ud)
  show ?thesis using a b c by simp
qed

section \<open>Handles opened and closed\<close>

lemma opens_append: "opens (a @ b) = opens a @ opens b"
  by (induction a rule: opens.induct) simp_all

lemma closes_append: "closes (a @ b) = closes a @ closes b"
  by (induction a rule: closes.induct) simp_all

lemma readTileV2_try_no_handles:
  "opens (snd (readTileV2_try fd b col row ps info)) = []
   \<and> closes (snd (readTileV2_try fd b col row ps info)) = []"
  by (simp add: readTileV2_try_def Let_def opens_append closes_append
        split: sum.splits prod.splits)

text \<open>
  \<^verbatim>\<open>readTileV2\<close> closes what it opened, on every path: the handles its trace closes are
  the handles it opens, at most one.
\<close>

theorem readTileV2_releases_handle:
  "closes (snd (readTileV2 fs dir col row level p)) = opens (snd (readTileV2 fs dir col row level p))
   \<and> length (opens (snd (readTileV2 fs dir col row level p))) \<le> 1"
proof (cases "fs_open fs (path_join [dir, L (getBundleInfo col row level (Some (case p of None \<Rightarrow> 128 | Some q \<Rightarrow> q))),
    R (getBundleInfo col row level (Some (case p of None \<Rightarrow> 128 | Some q \<Rightarrow> q)))
    @ C (getBundleInfo col row level (Some (case p of None \<Rightarrow> 128 | Some q \<Rightarrow> q))) @ ''.bundle''])")
  case (Inl e)
  then show ?thesis by (simp add: readTileV2_def Let_def)
next
  case (Inr fd)
  then show ?thesis
    by (simp add: readTileV2_def Let_def case_prod_beta opens_append closes_append
          readTileV2_try_no_handles)
qed


text \<open>
  \<^verbatim>\<open>readTileV1\<close> closes what it opened on the paths where no read throws: on a cache in
  which nothing is unreadable, the handles its trace closes are the handles it opens.
\<close>

theorem readTileV1_releases_handles_unless_read_fails:
  assumes "\<forall>path. fs path \<noteq> Some Unreadable"
  shows "closes (snd (readTileV1 fs dir z x y p)) = opens (snd (readTileV1 fs dir z x y p))"
proof -
  have total: "fd_read \<lparr> fh_path = q, fh_node = File bs, fh_pos = k \<rparr> buf n pos \<noteq> Inl e"
    for q bs k buf n pos e
    by (simp add: fd_read_def Let_def)
  have isfile: "\<exists>bs. nd = File bs" if "fs path = Some nd" for path nd
    using assms that by (cases nd) auto
  show ?thesis
    by (auto simp: readTileV1_def Let_def fs_open_def fd_read_def
          split: sum.splits prod.splits option.splits node.splits dest: isfile)
qed


lemma readTileV1_example_tile:
  "readTileV1 cache_v1 ''d'' 1 0 0 None =
     (Inr (Some [7, 8, 9]),
      [EvOpen ''d/L01/R0000C0000.bundlx'', EvRead ''d/L01/R0000C0000.bundlx'' 16 5,
       EvClose ''d/L01/R0000C0000.bundlx'', EvOpen ''d/L01/R0000C0000.bundle'',
       EvRead ''d/L01/R0000C0000.bundle'' 4 4, EvRead ''d/L01/R0000C0000.bundle'' 8 3,
       EvClose ''d/L01/R0000C0000.bundle''])"
  using readTileV1_tile[where p=None and ps=128 and dir="''d''" and x=0 and y=0 and z=1
      and fs=cache_v1 and ibs=example_bundlx and dbs=example_bundle_v1,
      OF refl refl refl _ refl _ refl _ _ refl]
  by (simp add: getBundleInfo_0_0 cache_v1_files readUIntLE_read_at readInt32LE_read_at
        example_bundlx_slot0 example_v1_values)

theorem readTileV1_releases_handles_witness:
  "(\<forall>path. cache_v1 path \<noteq> Some Unreadable)
   \<and> opens (snd (readTileV1 cache_v1 ''d'' 1 0 0 None)) =
       [''d/L01/R0000C0000.bundlx'', ''d/L01/R0000C0000.bundle'']
   \<and> closes (snd (readTileV1 cache_v1 ''d'' 1 0 0 None)) =
       [''d/L01/R0000C0000.bundlx'', ''d/L01/R0000C0000.bundle'']"
proof -
  have h: "\<forall>path. cache_v1 path \<noteq> Some Unreadable" by (simp add: cache_v1_def)
  show ?thesis
    using h readTileV1_releases_handles_unless_read_fails[OF h, of "''d''" 1 0 0 None]
    by (simp add: readTileV1_example_tile)
qed

section \<open>The V2 format version\<close>

text \<open>
  A V2 bundle whose header does not hold the version 3 gives the absent result, with a
  warning, and the decoder reads nothing after the header: no record is looked up.
\<close>

theorem readTileV2_unsupported_version:
  assumes "ps = (case p of None \<Rightarrow> 128 | Some q \<Rightarrow> q)"
    and "info = getBundleInfo col row level (Some ps)"
    and "bundle = path_join [dir, L info, R info @ C info @ ''.bundle'']"
    and "fs bundle = Some (File bs)"
    and "u32_at bs 0 \<noteq> 3"
  shows "fst (readTileV2 fs dir col row level p) = Inr None
       \<and> events_on bundle (snd (readTileV2 fs dir col row level p)) =
           [EvOpen bundle, EvRead bundle 0 64, EvClose bundle]"
  using readTileV2_bad_version[where fs=fs and p=p and dir=dir, OF assms]
  by (simp add: events_on_def)

theorem readTileV2_unsupported_version_witness:
  "fst (readTileV2 cache_v2_version2 ''d'' 0 0 1 None) = Inr None
   \<and> events_on ''d/L01/R0000C0000.bundle'' (snd (readTileV2 cache_v2_version2 ''d'' 0 0 1 None)) =
       [EvOpen ''d/L01/R0000C0000.bundle'', EvRead ''d/L01/R0000C0000.bundle'' 0 64,
        EvClose ''d/L01/R0000C0000.bundle'']"
proof -
  have f: "cache_v2_version2 ''d/L01/R0000C0000.bundle''
             = Some (File ([2, 0, 0, 0] @ replicate 60 0 @ [108, 0, 0, 0]))"
    by (simp add: cache_v2_version2_def)
  have v: "u32_at ([2, 0, 0, 0] @ replicate 60 0 @ [108, 0, 0, 0]) 0 \<noteq> 3"
    by (simp add: u32_at_def byte_at_def nth_append)
  show ?thesis
    using readTileV2_unsupported_version[where p=None and ps=128 and dir="''d''" and col=0
        and row=0 and level=1 and fs=cache_v2_version2, OF _ refl refl _ v]
    by (simp add: getBundleInfo_v2_row0 f)
qed

end
